theory Spec2Isabelle
  imports Complex_Main
begin

section \<open>Values of the program\<close>

text \<open>
  The server is a Node.js program (\<^verbatim>\<open>server.js\<close>). A JavaScript number is modelled as
  a real and \<^verbatim>\<open>NaN\<close> is written out where the code can produce it. Arithmetic is
  exact, except where a rounding error of the IEEE doubles decides between a number and
  \<^verbatim>\<open>NaN\<close>: there the error is a parameter of the model. A field of a JSON request body
  is absent (\<^verbatim>\<open>undefined\<close> after destructuring), \<^verbatim>\<open>null\<close> or a value; the model
  covers bodies whose numeric fields hold numbers and whose text fields hold strings.
  A column of a database row is \<open>None\<close> for SQL \<^verbatim>\<open>NULL\<close>.
\<close>

datatype 'a js = Undefined | Null | Val 'a

text \<open>JavaScript truthiness, as \<^verbatim>\<open>!x\<close> tests it: 0 and the empty string are falsy.\<close>

fun truthy_num :: "real js \<Rightarrow> bool" where
  "truthy_num (Val v) = (v \<noteq> 0)"
| "truthy_num _ = False"

fun truthy_str :: "string js \<Rightarrow> bool" where
  "truthy_str (Val s) = (s \<noteq> [])"
| "truthy_str _ = False"

text \<open>
  \<^verbatim>\<open>x < c\<close> and \<^verbatim>\<open>x > c\<close> against a number: \<^verbatim>\<open>null\<close> converts to 0 and
  \<^verbatim>\<open>undefined\<close> to \<^verbatim>\<open>NaN\<close>, which compares false.
\<close>

fun js_lt :: "real js \<Rightarrow> real \<Rightarrow> bool" where
  "js_lt (Val v) c = (v < c)"
| "js_lt Null c = (0 < c)"
| "js_lt Undefined c = False"

fun js_gt :: "real js \<Rightarrow> real \<Rightarrow> bool" where
  "js_gt (Val v) c = (v > c)"
| "js_gt Null c = (0 > c)"
| "js_gt Undefined c = False"

text \<open>The destructuring default \<^verbatim>\<open>speed = 0\<close> replaces \<^verbatim>\<open>undefined\<close> only.\<close>

fun default0 :: "real js \<Rightarrow> real js" where
  "default0 Undefined = Val 0"
| "default0 x = x"

text \<open>A bound statement parameter: \<^verbatim>\<open>undefined\<close> and \<^verbatim>\<open>null\<close> are stored as NULL.\<close>

fun to_sql :: "'a js \<Rightarrow> 'a option" where
  "to_sql (Val v) = Some v"
| "to_sql _ = None"

text \<open>A column read back into arithmetic: \<^verbatim>\<open>null\<close> converts to 0.\<close>

fun num :: "real option \<Rightarrow> real" where
  "num (Some v) = v"
| "num None = 0"

text \<open>\<^verbatim>\<open>Math.round\<close>: the nearest integer, a half rounding up.\<close>

definition Math_round :: "real \<Rightarrow> int" where
  "Math_round x = \<lfloor>x + 1/2\<rfloor>"

text \<open>\<^verbatim>\<open>Math.atan2(y, x)\<close> on reals.\<close>

definition atan2 :: "real \<Rightarrow> real \<Rightarrow> real" where
  "atan2 y x =
     (if 0 < x then arctan (y / x)
      else if x < 0 then (if 0 \<le> y then arctan (y / x) + pi else arctan (y / x) - pi)
      else if 0 < y then pi / 2
      else if y < 0 then - (pi / 2)
      else 0)"

section \<open>Geo math\<close>

text \<open>
  \<^verbatim>\<open>calculateDistance\<close> (Haversine formula, Earth radius 6371 km): kilometres. This
  is the formula in exact arithmetic, where the term \<open>a\<close> always lies between 0 and 1.
\<close>

definition calculateDistance :: "real \<Rightarrow> real \<Rightarrow> real \<Rightarrow> real \<Rightarrow> real" where
  "calculateDistance lat1 lon1 lat2 lon2 =
     (let R = 6371;
          dLat = (lat2 - lat1) * pi / 180;
          dLon = (lon2 - lon1) * pi / 180;
          a = sin (dLat / 2) * sin (dLat / 2) +
              cos (lat1 * pi / 180) * cos (lat2 * pi / 180) *
              sin (dLon / 2) * sin (dLon / 2);
          c = 2 * atan2 (sqrt a) (sqrt (1 - a))
      in R * c)"

text \<open>\<^verbatim>\<open>Math.sqrt\<close>: \<^verbatim>\<open>NaN\<close> (\<open>None\<close>) for a negative number.\<close>

definition Math_sqrt :: "real \<Rightarrow> real option" where
  "Math_sqrt x = (if x < 0 then None else Some (sqrt x))"

text \<open>
  The term \<open>a\<close> of \<^verbatim>\<open>calculateDistance\<close>, exactly.
\<close>

definition haversine_term :: "real \<Rightarrow> real \<Rightarrow> real \<Rightarrow> real \<Rightarrow> real" where
  "haversine_term lat1 lon1 lat2 lon2 =
     sin ((lat2 - lat1) * pi / 180 / 2) * sin ((lat2 - lat1) * pi / 180 / 2) +
     cos (lat1 * pi / 180) * cos (lat2 * pi / 180) *
     sin ((lon2 - lon1) * pi / 180 / 2) * sin ((lon2 - lon1) * pi / 180 / 2)"

text \<open>
  \<^verbatim>\<open>calculateDistance\<close> as the doubles of the server run it, as far as a number and
  \<^verbatim>\<open>NaN\<close> can differ. The doubles compute the term \<open>a\<close> with a rounding error, which
  \<open>rnd\<close> gives for each four coordinates; between nearly antipodal points \<open>a\<close> rounds
  above 1, \<^verbatim>\<open>Math.sqrt(1-a)\<close> is \<^verbatim>\<open>NaN\<close>, and so is the result (\<open>None\<close>). The
  rounding of the other operations is left out.
\<close>

definition calculateDistance_fl ::
    "(real \<Rightarrow> real \<Rightarrow> real \<Rightarrow> real \<Rightarrow> real) \<Rightarrow> real \<Rightarrow> real \<Rightarrow> real \<Rightarrow> real \<Rightarrow> real option" where
  "calculateDistance_fl rnd lat1 lon1 lat2 lon2 =
     (let R = 6371;
          dLat = (lat2 - lat1) * pi / 180;
          dLon = (lon2 - lon1) * pi / 180;
          a = sin (dLat / 2) * sin (dLat / 2) +
              cos (lat1 * pi / 180) * cos (lat2 * pi / 180) *
              sin (dLon / 2) * sin (dLon / 2) +
              rnd lat1 lon1 lat2 lon2
      in case (Math_sqrt a, Math_sqrt (1 - a)) of
           (Some y, Some x) \<Rightarrow> Some (R * (2 * atan2 y x))
         | _ \<Rightarrow> None)"

section \<open>Database rows\<close>

text \<open>
  The columns of \<^verbatim>\<open>location_data\<close> that the server writes or reads. The column
  \<^verbatim>\<open>timestamp\<close> holds the number of milliseconds that \<^verbatim>\<open>new Date(row.timestamp)\<close>
  evaluates to.
\<close>

record location_row =
  ld_tracking_id :: "string option"
  ld_latitude :: "real option"
  ld_longitude :: "real option"
  ld_accuracy :: "real option"
  ld_speed :: "real option"
  ld_heading :: "real option"
  ld_altitude :: "real option"
  ld_timestamp :: int
  ld_user_agent :: "string option"
  ld_ip_address :: "string option"
  ld_session_id :: "string option"
  ld_battery_level :: "real option"
  ld_network_type :: "string option"

record geofence_row =
  gf_id :: nat
  gf_tracking_id :: "string option"
  gf_latitude :: "real option"
  gf_longitude :: "real option"
  gf_radius :: "real option"
  gf_action :: "string option"
  gf_active :: bool

record session_row =
  ts_tracking_id :: "string option"
  ts_started_at :: int
  ts_last_update :: int
  ts_is_active :: bool
  ts_total_locations :: int

record link_row =
  tl_name :: "string option"
  tl_active :: bool

section \<open>Route analysis\<close>

record stop =
  stop_latitude :: "real option"
  stop_longitude :: "real option"
  stop_duration :: real
  stop_timestamp :: int

record route_acc =
  totalDistance_acc :: real
  totalSpeed :: real
  speedCount :: nat
  stops_acc :: "stop list"

text \<open>
  The summary \<^verbatim>\<open>analyzeRoute\<close> returns. The early return for fewer than two rows has
  no \<^verbatim>\<open>totalLocations\<close> and no \<^verbatim>\<open>duration\<close>.
\<close>

record route_summary =
  totalDistance :: real
  avgSpeed :: int
  stops :: "stop list"
  totalLocations :: "nat option"
  duration :: "real option"

text \<open>
  The route analysis is modelled with the exact \<open>calculateDistance\<close>: between nearly
  antipodal consecutive samples the total distance of the code is \<^verbatim>\<open>NaN\<close>, which this
  model does not show. The stops and the average speed do not depend on the distances.
\<close>

text \<open>One pass of the loop body, for the pair \<^verbatim>\<open>locations[i-1]\<close> (prev) and \<^verbatim>\<open>locations[i]\<close> (curr, here cur).\<close>

definition route_step :: "location_row \<Rightarrow> location_row \<Rightarrow> route_acc \<Rightarrow> route_acc" where
  "route_step prev cur acc =
     (let distance = calculateDistance (num (ld_latitude prev)) (num (ld_longitude prev))
                       (num (ld_latitude cur)) (num (ld_longitude cur));
          acc1 = acc\<lparr>totalDistance_acc := totalDistance_acc acc + distance\<rparr>;
          acc2 = (if ld_speed cur \<noteq> None \<and> ld_speed cur \<noteq> Some 0
                  then acc1\<lparr>totalSpeed := totalSpeed acc1 + num (ld_speed cur),
                            speedCount := Suc (speedCount acc1)\<rparr>
                  else acc1);
          timeDiff = ld_timestamp cur - ld_timestamp prev
      in if timeDiff > 5 * 60 * 1000
         then acc2\<lparr>stops_acc := stops_acc acc2 @
                [\<lparr>stop_latitude = ld_latitude cur, stop_longitude = ld_longitude cur,
                  stop_duration = real_of_int timeDiff / (1000 * 60),
                  stop_timestamp = ld_timestamp cur\<rparr>]\<rparr>
         else acc2)"

text \<open>The loop \<^verbatim>\<open>for (let i = 1; i < locations.length; i++)\<close>, started at \<^verbatim>\<open>locations[0]\<close>.\<close>

fun route_loop :: "location_row \<Rightarrow> location_row list \<Rightarrow> route_acc \<Rightarrow> route_acc" where
  "route_loop prev [] acc = acc"
| "route_loop prev (cur # rest) acc = route_loop cur rest (route_step prev cur acc)"

definition analyzeRoute :: "location_row list \<Rightarrow> route_summary" where
  "analyzeRoute locations =
     (if length locations < 2
      then \<lparr>totalDistance = 0, avgSpeed = 0, stops = [], totalLocations = None, duration = None\<rparr>
      else
        let acc = route_loop (hd locations) (tl locations)
                    \<lparr>totalDistance_acc = 0, totalSpeed = 0, speedCount = 0, stops_acc = []\<rparr>
        in \<lparr>totalDistance = real_of_int (Math_round (totalDistance_acc acc * 100)) / 100,
            avgSpeed = (if speedCount acc > 0
                        then Math_round ((totalSpeed acc / real (speedCount acc)) * 3.6)
                        else 0),
            stops = stops_acc acc,
            totalLocations = Some (length locations),
            duration = Some (real_of_int (ld_timestamp (last locations) - ld_timestamp (hd locations))
                             / (1000 * 60 * 60))\<rparr>)"

section \<open>Geofence evaluation\<close>

record triggered =
  tg_id :: nat
  tg_action :: "string option"
  tg_distance :: int

text \<open>
  A request field used in arithmetic: \<^verbatim>\<open>null\<close> converts to 0, \<^verbatim>\<open>undefined\<close> to
  \<^verbatim>\<open>NaN\<close> (\<open>None\<close>).
\<close>

fun to_number :: "real js \<Rightarrow> real option" where
  "to_number (Val v) = Some v"
| "to_number Null = Some 0"
| "to_number Undefined = None"

text \<open>
  The body of \<^verbatim>\<open>geofences.forEach\<close> in \<^verbatim>\<open>/api/mobile/check-geofence\<close>: the entry
  pushed for one geofence, if any. With a \<^verbatim>\<open>NaN\<close> coordinate, or when the distance
  itself comes out as \<^verbatim>\<open>NaN\<close>, \<^verbatim>\<open>distance <= geofence.radius\<close> is false.
\<close>

definition geofence_hit ::
    "(real \<Rightarrow> real \<Rightarrow> real \<Rightarrow> real \<Rightarrow> real) \<Rightarrow> real js \<Rightarrow> real js \<Rightarrow> geofence_row \<Rightarrow> triggered option" where
  "geofence_hit rnd latitude longitude geofence =
     (case (to_number latitude, to_number longitude) of
        (Some la, Some lo) \<Rightarrow>
          (case calculateDistance_fl rnd la lo (num (gf_latitude geofence))
                  (num (gf_longitude geofence)) of
             Some distance \<Rightarrow>
               if distance \<le> num (gf_radius geofence)
               then Some \<lparr>tg_id = gf_id geofence, tg_action = gf_action geofence,
                          tg_distance = Math_round (distance * 1000)\<rparr>
               else None
           | None \<Rightarrow> None)
      | _ \<Rightarrow> None)"

text \<open>\<^verbatim>\<open>SELECT * FROM geofences WHERE tracking_id = ? AND active = 1\<close>.\<close>

definition select_geofences :: "string js \<Rightarrow> geofence_row list \<Rightarrow> geofence_row list" where
  "select_geofences trackingId rows =
     filter (\<lambda>g. to_sql trackingId \<noteq> None \<and> gf_tracking_id g = to_sql trackingId \<and> gf_active g) rows"

section \<open>Server state\<close>

text \<open>
  The event \<^verbatim>\<open>location-update\<close> and the two acknowledgements a socket is sent. A key
  the object literal does not have is \<open>Undefined\<close>.
\<close>

record location_update =
  ev_latitude :: "real js"
  ev_longitude :: "real js"
  ev_accuracy :: "real js"
  ev_speed :: "real js"
  ev_heading :: "real js"
  ev_altitude :: "real js"
  ev_batteryLevel :: "real js"
  ev_networkType :: "string js"
  ev_timestamp :: int

datatype event =
    LocationUpdate location_update
  | TrackingJoined "string js"
  | TrackingLeft "string js"

type_synonym socket_id = string

text \<open>
  The tables of \<^verbatim>\<open>locations.db\<close>, the map \<^verbatim>\<open>activeConnections\<close>, and the rooms of
  Socket.IO: the members of each room in the order they joined. \<open>published\<close> lists the
  calls \<^verbatim>\<open>io.to(room).emit(...)\<close>, \<open>delivered\<close> what each socket was sent.
\<close>

record server =
  tracking_links :: "string \<rightharpoonup> link_row"
  location_data :: "location_row list"
  tracking_sessions :: "string \<rightharpoonup> session_row"
  geofences :: "geofence_row list"
  activeConnections :: "socket_id \<rightharpoonup> string js"
  rooms :: "string js \<Rightarrow> socket_id list"
  published :: "(string js \<times> event) list"
  delivered :: "(socket_id \<times> event) list"

subsection \<open>Socket.IO\<close>

text \<open>
  The room bookkeeping of the Socket.IO library is not in the repository. The five
  operations below follow the fan-out router of the specification. The private room a
  socket has under its own id is left out: identifiers of tracking links are taken to
  differ from socket ids.
\<close>

text \<open>
  Modelled from the spec: \<^verbatim>\<open>socket.join(room)\<close> of Socket.IO, missing from the
  repository. Subscribing adds the connection to the set of the link's subscribers and
  is idempotent.
\<close>

definition sio_join :: "socket_id \<Rightarrow> string js \<Rightarrow> server \<Rightarrow> server" where
  "sio_join s room st =
     (if s \<in> set (rooms st room) then st
      else st\<lparr>rooms := (rooms st)(room := rooms st room @ [s])\<rparr>)"

text \<open>
  Modelled from the spec: \<^verbatim>\<open>socket.leave(room)\<close> of Socket.IO, missing from the
  repository. Unsubscribing removes the membership and does nothing when there is none.
\<close>

definition sio_leave :: "socket_id \<Rightarrow> string js \<Rightarrow> server \<Rightarrow> server" where
  "sio_leave s room st = st\<lparr>rooms := (rooms st)(room := removeAll s (rooms st room))\<rparr>"

text \<open>
  Modelled from the spec: what Socket.IO does to the rooms when a socket closes, missing
  from the repository. A disconnect removes the connection from every set it belonged to.
\<close>

definition sio_leave_all :: "socket_id \<Rightarrow> server \<Rightarrow> server" where
  "sio_leave_all s st = st\<lparr>rooms := (\<lambda>room. removeAll s (rooms st room))\<rparr>"

text \<open>
  Modelled from the spec: \<^verbatim>\<open>socket.emit(...)\<close> of Socket.IO, missing from the
  repository. The acknowledgement goes to the requesting connection only.
\<close>

definition sio_socket_emit :: "socket_id \<Rightarrow> event \<Rightarrow> server \<Rightarrow> server" where
  "sio_socket_emit s ev st = st\<lparr>delivered := delivered st @ [(s, ev)]\<rparr>"

text \<open>
  Modelled from the spec: \<^verbatim>\<open>io.to(room).emit(...)\<close> of Socket.IO, missing from the
  repository. Publishing delivers the event to every connection that is in the set of
  the link's subscribers at the moment of the call.
\<close>

definition sio_to_emit :: "string js \<Rightarrow> event \<Rightarrow> server \<Rightarrow> server" where
  "sio_to_emit room ev st =
     st\<lparr>published := published st @ [(room, ev)],
        delivered := delivered st @ map (\<lambda>s. (s, ev)) (rooms st room)\<rparr>"

subsection \<open>Socket handlers\<close>

text \<open>The handlers registered in \<^verbatim>\<open>io.on('connection', ...)\<close>.\<close>

definition join_tracking :: "socket_id \<Rightarrow> string js \<Rightarrow> server \<Rightarrow> server" where
  "join_tracking s trackingId st =
     (let st1 = sio_join s trackingId st;
          st2 = st1\<lparr>activeConnections := (activeConnections st1)(s \<mapsto> trackingId)\<rparr>
      in sio_socket_emit s (TrackingJoined trackingId) st2)"

definition leave_tracking :: "socket_id \<Rightarrow> string js \<Rightarrow> server \<Rightarrow> server" where
  "leave_tracking s trackingId st =
     (let st1 = sio_leave s trackingId st;
          st2 = st1\<lparr>activeConnections := (activeConnections st1)(s := None)\<rparr>
      in sio_socket_emit s (TrackingLeft trackingId) st2)"

text \<open>
  A disconnect: the library takes the socket out of its rooms, then the handler of
  \<^verbatim>\<open>'disconnect'\<close> runs, which deletes the entry of \<^verbatim>\<open>activeConnections\<close> when the
  stored tracking id is truthy.
\<close>

definition on_disconnect :: "socket_id \<Rightarrow> server \<Rightarrow> server" where
  "on_disconnect s st =
     (case activeConnections st s of
        Some trackingId \<Rightarrow>
          (if truthy_str trackingId then st\<lparr>activeConnections := (activeConnections st)(s := None)\<rparr>
           else st)
      | None \<Rightarrow> st)"

definition disconnect :: "socket_id \<Rightarrow> server \<Rightarrow> server" where
  "disconnect s st = on_disconnect s (sio_leave_all s st)"

section \<open>HTTP handlers\<close>

text \<open>
  The JSON body of the three ingest endpoints, and what a handler answers. The error
  texts of the source are named (the Turkish texts are quoted without their diacritics):
  \<^item> \<open>MissingLocationData\<close> is \<^verbatim>\<open>'Eksik konum verileri'\<close> (missing location data),
  \<^item> \<open>InvalidCoordinates\<close> is \<^verbatim>\<open>'Gecersiz koordinatlar'\<close> (invalid coordinates),
  \<^item> \<open>InvalidAccuracy\<close> is \<^verbatim>\<open>'Gecersiz hassasiyet degeri'\<close> (invalid accuracy value),
  \<^item> \<open>SessionIdRequired\<close> is \<^verbatim>\<open>'Session ID gerekli'\<close> (session id required),
  \<^item> \<open>DbError m\<close> is \<^verbatim>\<open>err.message\<close> of a failed statement.
\<close>

record location_body =
  trackingId :: "string js"
  latitude :: "real js"
  longitude :: "real js"
  accuracy :: "real js"
  speed :: "real js"
  heading :: "real js"
  altitude :: "real js"
  userAgent :: "string js"
  ipAddress :: "string js"
  sessionId :: "string js"
  batteryLevel :: "real js"
  networkType :: "string js"

datatype err_msg =
    MissingLocationData
  | InvalidCoordinates
  | InvalidAccuracy
  | SessionIdRequired
  | DbError string

datatype ok_msg = LocationSaved | BackgroundLocationSaved | SessionStopped

datatype reply =
    Err nat err_msg
  | Ok ok_msg
  | TriggeredGeofences "triggered list"

text \<open>
  The middleware \<^verbatim>\<open>validateLocationData\<close>: \<open>Some r\<close> when it answers \<open>r\<close> itself,
  \<open>None\<close> when it calls \<^verbatim>\<open>next()\<close>.
\<close>

definition validateLocationData :: "location_body \<Rightarrow> reply option" where
  "validateLocationData body =
     (if \<not> truthy_num (latitude body) \<or> \<not> truthy_num (longitude body) \<or> \<not> truthy_num (accuracy body)
      then Some (Err 400 MissingLocationData)
      else if js_lt (latitude body) (- 90) \<or> js_gt (latitude body) 90 \<or>
              js_lt (longitude body) (- 180) \<or> js_gt (longitude body) 180
      then Some (Err 400 InvalidCoordinates)
      else if js_lt (accuracy body) 0 \<or> js_gt (accuracy body) 10000
      then Some (Err 400 InvalidAccuracy)
      else None)"

text \<open>
  \<^verbatim>\<open>UPDATE tracking_sessions SET last_update = CURRENT_TIMESTAMP, total_locations =
  total_locations + 1 WHERE id = ?\<close>. The statement is run without a callback: whether it
  changed a row is not looked at.
\<close>

definition update_session :: "string js \<Rightarrow> int \<Rightarrow> server \<Rightarrow> server" where
  "update_session sid now st =
     (case to_sql sid of
        None \<Rightarrow> st
      | Some i \<Rightarrow>
          (case tracking_sessions st i of
             None \<Rightarrow> st
           | Some r \<Rightarrow> st\<lparr>tracking_sessions := (tracking_sessions st)(i \<mapsto>
                         r\<lparr>ts_last_update := now, ts_total_locations := ts_total_locations r + 1\<rparr>)\<rparr>))"

text \<open>
  The three ingest handlers. \<open>db_err\<close> is the error the \<^verbatim>\<open>INSERT\<close> into
  \<^verbatim>\<open>location_data\<close> calls back with (\<open>None\<close> when the row was written), \<open>now\<close> the
  clock. No handler reads \<^verbatim>\<open>tracking_links\<close>, and the source never turns on
  \<^verbatim>\<open>PRAGMA foreign_keys\<close>, without which SQLite does not enforce the
  \<^verbatim>\<open>FOREIGN KEY\<close> clause of the table.
\<close>

definition save_location :: "string option \<Rightarrow> int \<Rightarrow> location_body \<Rightarrow> server \<Rightarrow> reply \<times> server" where
  "save_location db_err now body st =
     (case validateLocationData body of
        Some r \<Rightarrow> (r, st)
      | None \<Rightarrow>
          if \<not> truthy_str (sessionId body) then (Err 400 SessionIdRequired, st)
          else
            (case db_err of
               Some m \<Rightarrow> (Err 500 (DbError m), st)
             | None \<Rightarrow>
                 (let st1 = st\<lparr>location_data := location_data st @
                        [\<lparr>ld_tracking_id = to_sql (trackingId body),
                          ld_latitude = to_sql (latitude body),
                          ld_longitude = to_sql (longitude body),
                          ld_accuracy = to_sql (accuracy body),
                          ld_speed = to_sql (default0 (speed body)),
                          ld_heading = to_sql (default0 (heading body)),
                          ld_altitude = to_sql (default0 (altitude body)),
                          ld_timestamp = now,
                          ld_user_agent = to_sql (userAgent body),
                          ld_ip_address = to_sql (ipAddress body),
                          ld_session_id = to_sql (sessionId body),
                          ld_battery_level = None,
                          ld_network_type = None\<rparr>]\<rparr>;
                      st2 = update_session (sessionId body) now st1;
                      st3 = sio_to_emit (trackingId body)
                        (LocationUpdate
                          \<lparr>ev_latitude = latitude body, ev_longitude = longitude body,
                           ev_accuracy = accuracy body, ev_speed = default0 (speed body),
                           ev_heading = default0 (heading body),
                           ev_altitude = default0 (altitude body),
                           ev_batteryLevel = Undefined, ev_networkType = Undefined,
                           ev_timestamp = now\<rparr>) st2
                  in (Ok LocationSaved, st3))))"

definition mobile_location :: "string option \<Rightarrow> int \<Rightarrow> location_body \<Rightarrow> server \<Rightarrow> reply \<times> server" where
  "mobile_location db_err now body st =
     (case validateLocationData body of
        Some r \<Rightarrow> (r, st)
      | None \<Rightarrow>
          (case db_err of
             Some m \<Rightarrow> (Err 500 (DbError m), st)
           | None \<Rightarrow>
               (let st1 = st\<lparr>location_data := location_data st @
                      [\<lparr>ld_tracking_id = to_sql (trackingId body),
                        ld_latitude = to_sql (latitude body),
                        ld_longitude = to_sql (longitude body),
                        ld_accuracy = to_sql (accuracy body),
                        ld_speed = to_sql (default0 (speed body)),
                        ld_heading = to_sql (default0 (heading body)),
                        ld_altitude = to_sql (default0 (altitude body)),
                        ld_timestamp = now,
                        ld_user_agent = None,
                        ld_ip_address = None,
                        ld_session_id = to_sql (sessionId body),
                        ld_battery_level = to_sql (batteryLevel body),
                        ld_network_type = to_sql (networkType body)\<rparr>]\<rparr>;
                    st2 = update_session (sessionId body) now st1;
                    st3 = sio_to_emit (trackingId body)
                      (LocationUpdate
                        \<lparr>ev_latitude = latitude body, ev_longitude = longitude body,
                         ev_accuracy = accuracy body, ev_speed = default0 (speed body),
                         ev_heading = default0 (heading body),
                         ev_altitude = default0 (altitude body),
                         ev_batteryLevel = batteryLevel body,
                         ev_networkType = networkType body,
                         ev_timestamp = now\<rparr>) st2
                in (Ok LocationSaved, st3))))"

definition background_location :: "string option \<Rightarrow> int \<Rightarrow> location_body \<Rightarrow> server \<Rightarrow> reply \<times> server" where
  "background_location db_err now body st =
     (case validateLocationData body of
        Some r \<Rightarrow> (r, st)
      | None \<Rightarrow>
          if \<not> truthy_str (sessionId body) then (Err 400 SessionIdRequired, st)
          else
            (case db_err of
               Some m \<Rightarrow> (Err 500 (DbError m), st)
             | None \<Rightarrow>
                 (let st1 = st\<lparr>location_data := location_data st @
                        [\<lparr>ld_tracking_id = to_sql (trackingId body),
                          ld_latitude = to_sql (latitude body),
                          ld_longitude = to_sql (longitude body),
                          ld_accuracy = to_sql (accuracy body),
                          ld_speed = to_sql (default0 (speed body)),
                          ld_heading = to_sql (default0 (heading body)),
                          ld_altitude = to_sql (default0 (altitude body)),
                          ld_timestamp = now,
                          ld_user_agent = to_sql (userAgent body),
                          ld_ip_address = to_sql (ipAddress body),
                          ld_session_id = to_sql (sessionId body),
                          ld_battery_level = None,
                          ld_network_type = None\<rparr>]\<rparr>;
                      st2 = update_session (sessionId body) now st1;
                      st3 = sio_to_emit (trackingId body)
                        (LocationUpdate
                          \<lparr>ev_latitude = latitude body, ev_longitude = longitude body,
                           ev_accuracy = accuracy body, ev_speed = default0 (speed body),
                           ev_heading = default0 (heading body),
                           ev_altitude = default0 (altitude body),
                           ev_batteryLevel = Undefined, ev_networkType = Undefined,
                           ev_timestamp = now\<rparr>) st2
                  in (Ok BackgroundLocationSaved, st3))))"

text \<open>
  \<^verbatim>\<open>/api/stop-session\<close>: \<^verbatim>\<open>UPDATE tracking_sessions SET is_active = 0 WHERE id = ?\<close>,
  answered with success unless the statement itself failed (\<open>db_err\<close>).
\<close>

definition stop_session :: "string option \<Rightarrow> string js \<Rightarrow> server \<Rightarrow> reply \<times> server" where
  "stop_session db_err sid st =
     (case db_err of
        Some m \<Rightarrow> (Err 500 (DbError m), st)
      | None \<Rightarrow>
          (Ok SessionStopped,
           (case to_sql sid of
              None \<Rightarrow> st
            | Some i \<Rightarrow>
                (case tracking_sessions st i of
                   None \<Rightarrow> st
                 | Some r \<Rightarrow> st\<lparr>tracking_sessions :=
                               (tracking_sessions st)(i \<mapsto> r\<lparr>ts_is_active := False\<rparr>)\<rparr>))))"

text \<open>
  \<^verbatim>\<open>/api/mobile/check-geofence\<close>; \<open>db_err\<close> is the error of the \<^verbatim>\<open>SELECT\<close>, \<open>rnd\<close>
  the rounding error of the doubles in \<open>calculateDistance_fl\<close>.
\<close>

definition check_geofence ::
    "(real \<Rightarrow> real \<Rightarrow> real \<Rightarrow> real \<Rightarrow> real) \<Rightarrow> string option \<Rightarrow> string js \<Rightarrow> real js \<Rightarrow> real js \<Rightarrow> server \<Rightarrow> reply" where
  "check_geofence rnd db_err tid lat lon st =
     (case db_err of
        Some m \<Rightarrow> Err 500 (DbError m)
      | None \<Rightarrow>
          TriggeredGeofences
            (List.map_filter (geofence_hit rnd lat lon) (select_geofences tid (geofences st))))"

section \<open>Fan-out traces\<close>

text \<open>
  The steps the router sees: a socket joins or leaves the room of a tracking id, a socket
  disconnects, an ingest handler publishes a \<^verbatim>\<open>location-update\<close> to a room.
\<close>

datatype step =
    JoinTracking socket_id "string js"
  | LeaveTracking socket_id "string js"
  | Disconnect socket_id
  | Publish "string js" location_update

fun fan_step :: "server \<Rightarrow> step \<Rightarrow> server" where
  "fan_step st (JoinTracking s room) = join_tracking s room st"
| "fan_step st (LeaveTracking s room) = leave_tracking s room st"
| "fan_step st (Disconnect s) = disconnect s st"
| "fan_step st (Publish room u) = sio_to_emit room (LocationUpdate u) st"

definition run :: "server \<Rightarrow> step list \<Rightarrow> server" where
  "run st steps = foldl fan_step st steps"

text \<open>The server as it starts: empty tables, nobody connected, nothing sent.\<close>

definition server0 :: server where
  "server0 = \<lparr>tracking_links = Map.empty, location_data = [], tracking_sessions = Map.empty,
     geofences = [], activeConnections = Map.empty, rooms = (\<lambda>room. []), published = [],
     delivered = []\<rparr>"

text \<open>The \<^verbatim>\<open>location-update\<close> events a socket was sent, in order.\<close>

definition updates_to :: "socket_id \<Rightarrow> server \<Rightarrow> location_update list" where
  "updates_to s st =
     List.map_filter (\<lambda>(s', ev). case ev of LocationUpdate u \<Rightarrow> (if s' = s then Some u else None)
                                   | _ \<Rightarrow> None) (delivered st)"

text \<open>
  What the specification promises, read off the trace alone, newest step first:
  \<open>subscribed\<close> is whether the socket joined the room and has neither left it nor
  disconnected since; \<open>expected\<close> lists the events published to a room at a moment the
  socket was subscribed to it.
\<close>

fun subscribed :: "step list \<Rightarrow> socket_id \<Rightarrow> string js \<Rightarrow> bool" where
  "subscribed [] s room = False"
| "subscribed (JoinTracking s' room' # older) s room =
     ((s' = s \<and> room' = room) \<or> subscribed older s room)"
| "subscribed (LeaveTracking s' room' # older) s room =
     (\<not> (s' = s \<and> room' = room) \<and> subscribed older s room)"
| "subscribed (Disconnect s' # older) s room = (s' \<noteq> s \<and> subscribed older s room)"
| "subscribed (Publish room' u # older) s room = subscribed older s room"

fun expected :: "step list \<Rightarrow> socket_id \<Rightarrow> location_update list" where
  "expected [] s = []"
| "expected (Publish room u # older) s =
     expected older s @ (if subscribed older s room then [u] else [])"
| "expected (x # older) s = expected older s"

section \<open>Inputs of the examples\<close>

text \<open>
  A request body with the keys \<^verbatim>\<open>trackingId\<close>, \<^verbatim>\<open>latitude\<close>, \<^verbatim>\<open>longitude\<close>,
  \<^verbatim>\<open>accuracy\<close> and \<^verbatim>\<open>sessionId\<close> and no other key.
\<close>

definition body_of :: "string js \<Rightarrow> real js \<Rightarrow> real js \<Rightarrow> real js \<Rightarrow> string js \<Rightarrow> location_body" where
  "body_of tid lat lon acc sid =
     \<lparr>trackingId = tid, latitude = lat, longitude = lon, accuracy = acc,
      speed = Undefined, heading = Undefined, altitude = Undefined,
      userAgent = Undefined, ipAddress = Undefined, sessionId = sid,
      batteryLevel = Undefined, networkType = Undefined\<rparr>"

text \<open>A row of \<^verbatim>\<open>location_data\<close> with a position, a speed and a time.\<close>

definition row_of :: "real \<Rightarrow> real \<Rightarrow> real option \<Rightarrow> int \<Rightarrow> location_row" where
  "row_of lat lon spd t =
     \<lparr>ld_tracking_id = Some ''t1'', ld_latitude = Some lat, ld_longitude = Some lon,
      ld_accuracy = Some 10, ld_speed = spd, ld_heading = Some 0, ld_altitude = Some 0,
      ld_timestamp = t, ld_user_agent = None, ld_ip_address = None,
      ld_session_id = Some ''s1'', ld_battery_level = None, ld_network_type = None\<rparr>"

text \<open>The server with the one tracking link \<^verbatim>\<open>t1\<close>, active or deactivated.\<close>

definition server_with_link :: "bool \<Rightarrow> server" where
  "server_with_link active =
     server0\<lparr>tracking_links := [''t1'' \<mapsto> \<lparr>tl_name = Some ''demo'', tl_active = active\<rparr>]\<rparr>"

text \<open>A computation of the term \<open>a\<close> that makes no rounding error.\<close>

definition no_rounding :: "real \<Rightarrow> real \<Rightarrow> real \<Rightarrow> real \<Rightarrow> real" where
  "no_rounding lat1 lon1 lat2 lon2 = 0"

text \<open>The event of a sample at a position and a time, with the defaults of the handler.\<close>

definition update_of :: "real \<Rightarrow> real \<Rightarrow> int \<Rightarrow> location_update" where
  "update_of lat lon t =
     \<lparr>ev_latitude = Val lat, ev_longitude = Val lon, ev_accuracy = Val 10, ev_speed = Val 0,
      ev_heading = Val 0, ev_altitude = Val 0, ev_batteryLevel = Undefined,
      ev_networkType = Undefined, ev_timestamp = t\<rparr>"

text \<open>An active geofence of link \<^verbatim>\<open>t1\<close>: a circle around a centre.\<close>

definition fence_of :: "nat \<Rightarrow> real \<Rightarrow> real \<Rightarrow> real \<Rightarrow> geofence_row" where
  "fence_of i lat lon r =
     \<lparr>gf_id = i, gf_tracking_id = Some ''t1'', gf_latitude = Some lat, gf_longitude = Some lon,
      gf_radius = Some r, gf_action = Some ''alert'', gf_active = True\<rparr>"

section \<open>A stored sample\<close>

text \<open>
  The handler has stored the sample of a request for tracking id \<open>t\<close>: between the two
  states the table \<^verbatim>\<open>location_data\<close> has grown by one row, which carries the tracking
  id, the position, the accuracy and the session id of the request.
\<close>

definition stored :: "location_body \<Rightarrow> string \<Rightarrow> server \<Rightarrow> server \<Rightarrow> bool" where
  "stored body t st st' =
     (\<exists>row. location_data st' = location_data st @ [row]
        \<and> ld_tracking_id row = Some t
        \<and> ld_latitude row = to_sql (latitude body)
        \<and> ld_longitude row = to_sql (longitude body)
        \<and> ld_accuracy row = to_sql (accuracy body)
        \<and> ld_session_id row = to_sql (sessionId body))"

section \<open>Stops, as the specification words them\<close>

text \<open>
  The specification's rule for stops, on a pair of consecutive samples (earlier, later):
  a stop is recorded when the elapsed time exceeds 5 minutes, at the later sample's
  coordinates, with the gap in minutes and the later sample's timestamp.
\<close>

definition gap_exceeds_5min :: "location_row \<times> location_row \<Rightarrow> bool" where
  "gap_exceeds_5min pc = (ld_timestamp (snd pc) - ld_timestamp (fst pc) > 300000)"

definition stop_of_pair :: "location_row \<times> location_row \<Rightarrow> stop" where
  "stop_of_pair pc =
     \<lparr>stop_latitude = ld_latitude (snd pc), stop_longitude = ld_longitude (snd pc),
      stop_duration = real_of_int (ld_timestamp (snd pc) - ld_timestamp (fst pc)) / 60000,
      stop_timestamp = ld_timestamp (snd pc)\<rparr>"

section \<open>Validation\<close>

lemma validate_zero:
  "latitude body = Val 0 \<or> longitude body = Val 0 \<or> accuracy body = Val 0 \<Longrightarrow>
   validateLocationData body = Some (Err 400 MissingLocationData)"
  by (auto simp: validateLocationData_def)

lemma validate_null:
  "to_sql (latitude body) = None \<or> to_sql (longitude body) = None \<or> to_sql (accuracy body) = None \<Longrightarrow>
   validateLocationData body = Some (Err 400 MissingLocationData)"
proof -
  have "to_sql x = None \<Longrightarrow> \<not> truthy_num x" for x
    by (cases x) simp_all
  then show "to_sql (latitude body) = None \<or> to_sql (longitude body) = None \<or>
      to_sql (accuracy body) = None \<Longrightarrow> ?thesis"
    by (auto simp: validateLocationData_def)
qed

text \<open>
  With three non-zero numbers the middleware checks the coordinates, then the accuracy,
  and lets everything else through.
\<close>

lemma validate_nonzero:
  assumes "latitude body = Val lat" "longitude body = Val lon" "accuracy body = Val acc"
    and "lat \<noteq> 0" "lon \<noteq> 0" "acc \<noteq> 0"
  shows "validateLocationData body =
     (if lat < - 90 \<or> lat > 90 \<or> lon < - 180 \<or> lon > 180 then Some (Err 400 InvalidCoordinates)
      else if acc < 0 \<or> acc > 10000 then Some (Err 400 InvalidAccuracy)
      else None)"
  using assms by (simp add: validateLocationData_def)

lemma validation_failure_writes_nothing:
  "validateLocationData body = Some r \<Longrightarrow>
   save_location e now body st = (r, st) \<and> mobile_location e now body st = (r, st) \<and>
   background_location e now body st = (r, st)"
  by (simp add: save_location_def mobile_location_def background_location_def)

text \<open>
  C10. A sample whose latitude, longitude or accuracy is the number 0 is answered with
  status 400 and the text for missing location data by the middleware, and so by each of
  the three endpoints it guards, which leave the server as it was.
\<close>

theorem zero_is_missing:
  assumes "latitude body = Val 0 \<or> longitude body = Val 0 \<or> accuracy body = Val 0"
  shows "validateLocationData body = Some (Err 400 MissingLocationData)
       \<and> save_location e now body st = (Err 400 MissingLocationData, st)
       \<and> mobile_location e now body st = (Err 400 MissingLocationData, st)
       \<and> background_location e now body st = (Err 400 MissingLocationData, st)"
  using validate_zero [OF assms]
  by (simp add: save_location_def mobile_location_def background_location_def)

theorem zero_is_missing_witness:
  "latitude (body_of (Val ''t1'') (Val 0) (Val 28.9784) (Val 10) (Val ''s1'')) = Val 0
   \<and> validateLocationData (body_of (Val ''t1'') (Val 0) (Val 28.9784) (Val 10) (Val ''s1''))
     = Some (Err 400 MissingLocationData)
   \<and> save_location None 0 (body_of (Val ''t1'') (Val 0) (Val 28.9784) (Val 10) (Val ''s1'')) server0
     = (Err 400 MissingLocationData, server0)"
proof -
  have h: "latitude (body_of (Val ''t1'') (Val 0) (Val 28.9784) (Val 10) (Val ''s1'')) = Val 0"
    by (simp add: body_of_def)
  from zero_is_missing [OF disjI1, OF h, of None 0 server0] h show ?thesis by simp
qed

text \<open>
  C5, at two requests. In \<^verbatim>\<open>{latitude: 95, longitude: 0, accuracy: 10, sessionId:
  's1'}\<close> no field is missing and the latitude is out of range, yet the answer is the text
  for missing location data, because the longitude 0 is falsy. And
  \<^verbatim>\<open>{trackingId: 't1', latitude: 41.0082, longitude: 28.9784, accuracy: 10}\<close>, which has
  no session id, is answered with success by \<^verbatim>\<open>/api/mobile/location\<close>, which writes
  its row.
\<close>

theorem validation_order_broken:
  "validateLocationData (body_of (Val ''t1'') (Val 95) (Val 0) (Val 10) (Val ''s1''))
     = Some (Err 400 MissingLocationData)
   \<and> save_location None 0 (body_of (Val ''t1'') (Val 95) (Val 0) (Val 10) (Val ''s1'')) server0
     = (Err 400 MissingLocationData, server0)
   \<and> fst (mobile_location None 0
        (body_of (Val ''t1'') (Val 41.0082) (Val 28.9784) (Val 10) Undefined) server0)
     = Ok LocationSaved
   \<and> length (location_data (snd (mobile_location None 0
        (body_of (Val ''t1'') (Val 41.0082) (Val 28.9784) (Val 10) Undefined) server0))) = 1"
  by (simp add: save_location_def mobile_location_def validateLocationData_def body_of_def
      server0_def update_session_def sio_to_emit_def)

theorem validation_order_broken_witness:
  "save_location None 0 (body_of (Val ''t1'') (Val 95) (Val 0) (Val 10) (Val ''s1'')) server0
     = (Err 400 MissingLocationData, server0)"
  by (rule validation_order_broken [THEN conjunct2, THEN conjunct1])

section \<open>Ingest\<close>

text \<open>
  The two endpoints with the session check append only rows with a non-empty session id.
\<close>

lemma guarded_ingest_session_nonempty:
  "location_data (snd (save_location e now body st)) = location_data st \<or>
   (\<exists>row sid. location_data (snd (save_location e now body st)) = location_data st @ [row]
      \<and> ld_session_id row = Some sid \<and> sid \<noteq> [])"
  "location_data (snd (background_location e now body st)) = location_data st \<or>
   (\<exists>row sid. location_data (snd (background_location e now body st)) = location_data st @ [row]
      \<and> ld_session_id row = Some sid \<and> sid \<noteq> [])"
proof -
  have t: "truthy_str x \<Longrightarrow> \<exists>sid. to_sql x = Some sid \<and> sid \<noteq> []" for x
    by (cases x) simp_all
  show "location_data (snd (save_location e now body st)) = location_data st \<or>
   (\<exists>row sid. location_data (snd (save_location e now body st)) = location_data st @ [row]
      \<and> ld_session_id row = Some sid \<and> sid \<noteq> [])"
    using t [of "sessionId body"]
    by (auto simp: save_location_def Let_def update_session_def sio_to_emit_def
          split: option.splits)
  show "location_data (snd (background_location e now body st)) = location_data st \<or>
   (\<exists>row sid. location_data (snd (background_location e now body st)) = location_data st @ [row]
      \<and> ld_session_id row = Some sid \<and> sid \<noteq> [])"
    using t [of "sessionId body"]
    by (auto simp: background_location_def Let_def update_session_def sio_to_emit_def
          split: option.splits)
qed

text \<open>
  C4, at the request \<^verbatim>\<open>{trackingId: 't1', latitude: 41.0082, longitude: 28.9784,
  accuracy: 10}\<close> sent to \<^verbatim>\<open>/api/mobile/location\<close>: the row is written with a NULL
  session id.
\<close>

theorem mobile_location_null_session:
  "fst (mobile_location None 0
        (body_of (Val ''t1'') (Val 41.0082) (Val 28.9784) (Val 10) Undefined) server0)
     = Ok LocationSaved
   \<and> map ld_session_id (location_data (snd (mobile_location None 0
        (body_of (Val ''t1'') (Val 41.0082) (Val 28.9784) (Val 10) Undefined) server0)))
     = [None]"
  by (simp add: mobile_location_def validateLocationData_def body_of_def server0_def
      update_session_def sio_to_emit_def)

text \<open>
  The row of a sample that names no tracking link at all is written as well, when the
  insert succeeds: the schema declares the foreign key, but the server never has it
  enforced.
\<close>

lemma unknown_link_row_written:
  "tracking_links server0 ''ghost'' = None
   \<and> map ld_tracking_id (location_data (snd (save_location None 0
        (body_of (Val ''ghost'') (Val 41.0082) (Val 28.9784) (Val 10) (Val ''s1'')) server0)))
     = [Some ''ghost'']"
  by (simp add: save_location_def validateLocationData_def body_of_def server0_def
      update_session_def sio_to_emit_def)

lemma save_location_stores:
  "validateLocationData body = None \<Longrightarrow> truthy_str (sessionId body) \<Longrightarrow> trackingId body = Val t \<Longrightarrow>
   fst (save_location None now body st) = Ok LocationSaved
   \<and> stored body t st (snd (save_location None now body st))"
  by (simp add: save_location_def Let_def update_session_def sio_to_emit_def stored_def
        split: option.splits)

lemma background_location_stores:
  "validateLocationData body = None \<Longrightarrow> truthy_str (sessionId body) \<Longrightarrow> trackingId body = Val t \<Longrightarrow>
   fst (background_location None now body st) = Ok BackgroundLocationSaved
   \<and> stored body t st (snd (background_location None now body st))"
  by (simp add: background_location_def Let_def update_session_def sio_to_emit_def stored_def
        split: option.splits)

lemma mobile_location_stores:
  "validateLocationData body = None \<Longrightarrow> trackingId body = Val t \<Longrightarrow>
   fst (mobile_location None now body st) = Ok LocationSaved
   \<and> stored body t st (snd (mobile_location None now body st))"
  by (simp add: mobile_location_def Let_def update_session_def sio_to_emit_def stored_def
        split: option.splits)

lemma ingest_ignores_flag:
  "save_location e now body (st\<lparr>tracking_links := links\<rparr>)
     = (fst (save_location e now body st), (snd (save_location e now body st))\<lparr>tracking_links := links\<rparr>)"
  "mobile_location e now body (st\<lparr>tracking_links := links\<rparr>)
     = (fst (mobile_location e now body st), (snd (mobile_location e now body st))\<lparr>tracking_links := links\<rparr>)"
  "background_location e now body (st\<lparr>tracking_links := links\<rparr>)
     = (fst (background_location e now body st),
        (snd (background_location e now body st))\<lparr>tracking_links := links\<rparr>)"
  by (simp_all add: save_location_def mobile_location_def background_location_def Let_def
       update_session_def sio_to_emit_def
       split: option.splits)

text \<open>
  C3 as stated fails: on the server whose only tracking link \<^verbatim>\<open>t1\<close> is deactivated, a
  valid sample for \<^verbatim>\<open>t1\<close> is answered with success and its row is written.
\<close>

theorem ingest_inactive_link_counterexample:
  "map_option tl_active (tracking_links (server_with_link False) ''t1'') = Some False
   \<and> fst (save_location None 0
        (body_of (Val ''t1'') (Val 41.0082) (Val 28.9784) (Val 10) (Val ''s1''))
        (server_with_link False))
     = Ok LocationSaved
   \<and> map ld_tracking_id (location_data (snd (save_location None 0
        (body_of (Val ''t1'') (Val 41.0082) (Val 28.9784) (Val 10) (Val ''s1''))
        (server_with_link False))))
     = [Some ''t1'']"
  by (simp add: save_location_def validateLocationData_def body_of_def server0_def
      server_with_link_def update_session_def sio_to_emit_def)

text \<open>
  C3, amended. The ingest handlers do not look at the active flag of the tracking link.
  For a sample that names an existing tracking link, active or not, and passes
  validation, each of the three handlers answers with success and stores the sample
  when the insert succeeds (on \<^verbatim>\<open>/api/save-location\<close> and
  \<^verbatim>\<open>/api/background-location\<close> the sample must carry a session id); and setting or
  clearing the flag of the link changes neither the answer of a handler nor what it
  writes.
\<close>

theorem ingest_ignores_active_flag:
  "(tracking_links st t = Some l \<and> trackingId body = Val t \<and> validateLocationData body = None \<longrightarrow>
      fst (mobile_location None now body st) = Ok LocationSaved
    \<and> stored body t st (snd (mobile_location None now body st))
    \<and> (truthy_str (sessionId body) \<longrightarrow>
          fst (save_location None now body st) = Ok LocationSaved
        \<and> stored body t st (snd (save_location None now body st))
        \<and> fst (background_location None now body st) = Ok BackgroundLocationSaved
        \<and> stored body t st (snd (background_location None now body st))))
   \<and> (tracking_links st t = Some l \<longrightarrow>
        save_location e now body (st\<lparr>tracking_links := (tracking_links st)(t \<mapsto> l\<lparr>tl_active := b\<rparr>)\<rparr>)
          = (fst (save_location e now body st),
             (snd (save_location e now body st))
               \<lparr>tracking_links := (tracking_links st)(t \<mapsto> l\<lparr>tl_active := b\<rparr>)\<rparr>)
      \<and> mobile_location e now body (st\<lparr>tracking_links := (tracking_links st)(t \<mapsto> l\<lparr>tl_active := b\<rparr>)\<rparr>)
          = (fst (mobile_location e now body st),
             (snd (mobile_location e now body st))
               \<lparr>tracking_links := (tracking_links st)(t \<mapsto> l\<lparr>tl_active := b\<rparr>)\<rparr>)
      \<and> background_location e now body
            (st\<lparr>tracking_links := (tracking_links st)(t \<mapsto> l\<lparr>tl_active := b\<rparr>)\<rparr>)
          = (fst (background_location e now body st),
             (snd (background_location e now body st))
               \<lparr>tracking_links := (tracking_links st)(t \<mapsto> l\<lparr>tl_active := b\<rparr>)\<rparr>))"
  using save_location_stores [of body t now st] background_location_stores [of body t now st]
    mobile_location_stores [of body t now st]
  by (simp add: ingest_ignores_flag)

theorem ingest_ignores_active_flag_witness:
  "tracking_links (server_with_link False) ''t1'' = Some \<lparr>tl_name = Some ''demo'', tl_active = False\<rparr>
   \<and> trackingId (body_of (Val ''t1'') (Val 41.0082) (Val 28.9784) (Val 10) (Val ''s1'')) = Val ''t1''
   \<and> validateLocationData (body_of (Val ''t1'') (Val 41.0082) (Val 28.9784) (Val 10) (Val ''s1'')) = None
   \<and> truthy_str (sessionId (body_of (Val ''t1'') (Val 41.0082) (Val 28.9784) (Val 10) (Val ''s1'')))
   \<and> fst (mobile_location None 0
        (body_of (Val ''t1'') (Val 41.0082) (Val 28.9784) (Val 10) (Val ''s1''))
        (server_with_link False)) = Ok LocationSaved
   \<and> length (location_data (snd (mobile_location None 0
        (body_of (Val ''t1'') (Val 41.0082) (Val 28.9784) (Val 10) (Val ''s1''))
        (server_with_link False)))) = 1
   \<and> fst (save_location None 0
        (body_of (Val ''t1'') (Val 41.0082) (Val 28.9784) (Val 10) (Val ''s1''))
        (server_with_link False)) = Ok LocationSaved
   \<and> length (location_data (snd (save_location None 0
        (body_of (Val ''t1'') (Val 41.0082) (Val 28.9784) (Val 10) (Val ''s1''))
        (server_with_link False)))) = 1
   \<and> fst (background_location None 0
        (body_of (Val ''t1'') (Val 41.0082) (Val 28.9784) (Val 10) (Val ''s1''))
        (server_with_link False)) = Ok BackgroundLocationSaved
   \<and> length (location_data (snd (background_location None 0
        (body_of (Val ''t1'') (Val 41.0082) (Val 28.9784) (Val 10) (Val ''s1''))
        (server_with_link False)))) = 1"
proof -
  let ?b = "body_of (Val ''t1'') (Val 41.0082) (Val 28.9784) (Val 10) (Val ''s1'')"
  let ?st = "server_with_link False"
  let ?l = "\<lparr>tl_name = Some ''demo'', tl_active = False\<rparr>"
  have h1: "tracking_links ?st ''t1'' = Some ?l" by (simp add: server_with_link_def)
  have h2: "trackingId ?b = Val ''t1''" by (simp add: body_of_def)
  have h3: "validateLocationData ?b = None" by (simp add: validateLocationData_def body_of_def)
  have h4: "truthy_str (sessionId ?b)" by (simp add: body_of_def)
  have e: "location_data ?st = []" by (simp add: server_with_link_def server0_def)
  note t = ingest_ignores_active_flag [where st = ?st and t = "''t1''" and l = ?l and body = ?b
      and now = 0 and e = None and b = True, THEN conjunct1, THEN mp, OF conjI [OF h1 conjI [OF h2 h3]]]
  have m: "fst (mobile_location None 0 ?b ?st) = Ok LocationSaved"
    "stored ?b ''t1'' ?st (snd (mobile_location None 0 ?b ?st))"
    using t by blast+
  have s: "fst (save_location None 0 ?b ?st) = Ok LocationSaved"
    "stored ?b ''t1'' ?st (snd (save_location None 0 ?b ?st))"
    using t h4 by blast+
  have g: "fst (background_location None 0 ?b ?st) = Ok BackgroundLocationSaved"
    "stored ?b ''t1'' ?st (snd (background_location None 0 ?b ?st))"
    using t h4 by blast+
  have l: "stored ?b ''t1'' ?st st' \<Longrightarrow> length (location_data st') = 1" for st'
    unfolding stored_def e by auto
  from h1 h2 h3 h4 m(1) l [OF m(2)] s(1) l [OF s(2)] g(1) l [OF g(2)] show ?thesis by blast
qed

text \<open>
  C7. When the insert fails, each ingest handler leaves the server as it was (no row, no
  session update, nothing published or delivered) and, for a sample that passed the
  checks, answers with status 500 and the error of the database. Whenever a handler
  publishes an event, the insert had succeeded and the row is in the table.
\<close>

theorem failed_insert_aborts:
  "snd (save_location (Some m) now body st) = st
   \<and> snd (mobile_location (Some m) now body st) = st
   \<and> snd (background_location (Some m) now body st) = st
   \<and> (validateLocationData body = None \<and> truthy_str (sessionId body) \<longrightarrow>
        fst (save_location (Some m) now body st) = Err 500 (DbError m)
      \<and> fst (background_location (Some m) now body st) = Err 500 (DbError m))
   \<and> (validateLocationData body = None \<longrightarrow>
        fst (mobile_location (Some m) now body st) = Err 500 (DbError m))
   \<and> (published (snd (save_location e now body st)) \<noteq> published st \<longrightarrow>
        e = None \<and> length (location_data (snd (save_location e now body st)))
                     = Suc (length (location_data st)))
   \<and> (published (snd (mobile_location e now body st)) \<noteq> published st \<longrightarrow>
        e = None \<and> length (location_data (snd (mobile_location e now body st)))
                     = Suc (length (location_data st)))
   \<and> (published (snd (background_location e now body st)) \<noteq> published st \<longrightarrow>
        e = None \<and> length (location_data (snd (background_location e now body st)))
                     = Suc (length (location_data st)))"
  by (simp add: save_location_def mobile_location_def background_location_def Let_def
       update_session_def sio_to_emit_def
       split: option.splits)

theorem failed_insert_aborts_witness:
  "validateLocationData (body_of (Val ''t1'') (Val 41.0082) (Val 28.9784) (Val 10) (Val ''s1'')) = None
   \<and> truthy_str (sessionId (body_of (Val ''t1'') (Val 41.0082) (Val 28.9784) (Val 10) (Val ''s1'')))
   \<and> save_location (Some ''disk full'') 0
        (body_of (Val ''t1'') (Val 41.0082) (Val 28.9784) (Val 10) (Val ''s1'')) server0
     = (Err 500 (DbError ''disk full''), server0)
   \<and> published (snd (save_location None 0
        (body_of (Val ''t1'') (Val 41.0082) (Val 28.9784) (Val 10) (Val ''s1'')) server0))
     \<noteq> published server0
   \<and> length (location_data (snd (save_location None 0
        (body_of (Val ''t1'') (Val 41.0082) (Val 28.9784) (Val 10) (Val ''s1'')) server0))) = 1"
proof -
  let ?b = "body_of (Val ''t1'') (Val 41.0082) (Val 28.9784) (Val 10) (Val ''s1'')"
  note t = failed_insert_aborts [where m = "''disk full''" and now = 0 and body = ?b
      and st = server0 and e = None]
  have h: "validateLocationData ?b = None \<and> truthy_str (sessionId ?b)"
    by (simp add: validateLocationData_def body_of_def)
  have p: "published (snd (save_location None 0 ?b server0)) \<noteq> published server0"
    by (simp add: save_location_def validateLocationData_def body_of_def server0_def
        update_session_def sio_to_emit_def)
  have a: "snd (save_location (Some ''disk full'') 0 ?b server0) = server0"
    using t by blast
  have b: "fst (save_location (Some ''disk full'') 0 ?b server0) = Err 500 (DbError ''disk full'')"
    using t h by blast
  have c: "length (location_data (snd (save_location None 0 ?b server0)))
             = Suc (length (location_data server0))"
    using t p by blast
  have "save_location (Some ''disk full'') 0 ?b server0 = (Err 500 (DbError ''disk full''), server0)"
    using a b by (simp add: prod_eq_iff)
  with h p c show ?thesis by (simp add: server0_def)
qed

section \<open>Sessions\<close>

text \<open>
  C6 as stated fails: stopping the session \<^verbatim>\<open>nope\<close> on the server that has no
  session is answered with success.
\<close>

theorem stop_unknown_session_counterexample:
  "tracking_sessions server0 ''nope'' = None
   \<and> stop_session None (Val ''nope'') server0 = (Ok SessionStopped, server0)"
  by (simp add: stop_session_def server0_def)

text \<open>
  C6, amended. The stop operation answers with success for every session id, unless the
  update statement itself fails, which is answered with status 500 and changes nothing.
  For an existing session it clears the active flag; for an id that names no session it
  changes nothing.
\<close>

theorem stop_session_result:
  "stop_session (Some m) sid st = (Err 500 (DbError m), st)
   \<and> (tracking_sessions st i = None \<longrightarrow> stop_session None (Val i) st = (Ok SessionStopped, st))
   \<and> (tracking_sessions st i = Some r \<longrightarrow>
        stop_session None (Val i) st
          = (Ok SessionStopped,
             st\<lparr>tracking_sessions := (tracking_sessions st)(i \<mapsto> r\<lparr>ts_is_active := False\<rparr>)\<rparr>))"
  by (simp add: stop_session_def)

theorem stop_session_result_witness:
  "tracking_sessions server0 ''nope'' = None
   \<and> fst (stop_session None (Val ''nope'') server0) = Ok SessionStopped
   \<and> tracking_sessions (server0\<lparr>tracking_sessions := [''s1'' \<mapsto>
        \<lparr>ts_tracking_id = Some ''t1'', ts_started_at = 0, ts_last_update = 0,
         ts_is_active = True, ts_total_locations = 0\<rparr>]\<rparr>) ''s1''
       = Some \<lparr>ts_tracking_id = Some ''t1'', ts_started_at = 0, ts_last_update = 0,
               ts_is_active = True, ts_total_locations = 0\<rparr>
   \<and> map_option ts_is_active (tracking_sessions (snd (stop_session None (Val ''s1'')
        (server0\<lparr>tracking_sessions := [''s1'' \<mapsto>
          \<lparr>ts_tracking_id = Some ''t1'', ts_started_at = 0, ts_last_update = 0,
           ts_is_active = True, ts_total_locations = 0\<rparr>]\<rparr>))) ''s1'') = Some False"
proof -
  let ?r = "\<lparr>ts_tracking_id = Some ''t1'', ts_started_at = 0, ts_last_update = 0,
             ts_is_active = True, ts_total_locations = 0\<rparr>"
  let ?st = "server0\<lparr>tracking_sessions := [''s1'' \<mapsto> ?r]\<rparr>"
  have h1: "tracking_sessions server0 ''nope'' = None" by (simp add: server0_def)
  have h2: "tracking_sessions ?st ''s1'' = Some ?r" by simp
  from stop_session_result [where m = "''x''" and sid = Null and st = server0
      and i = "''nope''", THEN conjunct2, THEN conjunct1,
      rule_format, OF h1]
  have a: "fst (stop_session None (Val ''nope'') server0) = Ok SessionStopped" by simp
  from stop_session_result [where m = "''x''" and sid = Null and st = ?st
      and i = "''s1''" and r = ?r, THEN conjunct2, THEN conjunct2,
      rule_format, OF h2]
  have b: "map_option ts_is_active (tracking_sessions (snd (stop_session None (Val ''s1'') ?st)) ''s1'')
             = Some False" by simp
  from h1 a h2 b show ?thesis by blast
qed

section \<open>Stops of a route\<close>

lemma stops_route_step:
  "stops_acc (route_step prev cur acc) =
     stops_acc acc @ (if gap_exceeds_5min (prev, cur) then [stop_of_pair (prev, cur)] else [])"
  by (simp add: route_step_def Let_def gap_exceeds_5min_def stop_of_pair_def)

lemma stops_route_loop:
  "stops_acc (route_loop prev rest acc) =
     stops_acc acc @ map stop_of_pair (filter gap_exceeds_5min (zip (prev # rest) rest))"
  by (induction rest arbitrary: prev acc) (simp_all add: stops_route_step)

lemma stops_analyzeRoute:
  "stops (analyzeRoute locations) =
     map stop_of_pair (filter gap_exceeds_5min (zip locations (tl locations)))"
proof (cases locations)
  case Nil
  then show ?thesis by (simp add: analyzeRoute_def)
next
  case outer: (Cons a rest)
  show ?thesis
  proof (cases rest)
    case Nil
    with outer show ?thesis by (simp add: analyzeRoute_def)
  next
    case (Cons b rest')
    with outer show ?thesis
      by (simp add: analyzeRoute_def Let_def stops_route_loop stops_route_step)
  qed
qed

text \<open>
  C8. The stops of \<^verbatim>\<open>analyzeRoute\<close> are, in order, one stop for each pair of
  consecutive samples whose gap exceeds 5 minutes and none for any other pair; the stop
  has the later sample's coordinates and timestamp and the gap in minutes as duration.
  Two samples exactly 10 minutes apart give exactly one stop of duration 10; two samples
  exactly 5 minutes apart give none.
\<close>

theorem stops_at_long_gaps:
  "stops (analyzeRoute locations) =
     map stop_of_pair (filter gap_exceeds_5min (zip locations (tl locations)))
   \<and> (ld_timestamp b - ld_timestamp a = 600000 \<longrightarrow>
        stops (analyzeRoute [a, b]) =
          [\<lparr>stop_latitude = ld_latitude b, stop_longitude = ld_longitude b,
            stop_duration = 10, stop_timestamp = ld_timestamp b\<rparr>])
   \<and> (ld_timestamp b - ld_timestamp a = 300000 \<longrightarrow> stops (analyzeRoute [a, b]) = [])"
  by (simp add: stops_analyzeRoute gap_exceeds_5min_def stop_of_pair_def)

theorem stops_at_long_gaps_witness:
  "ld_timestamp (row_of 41.0122 28.9844 (Some 7) 600000) - ld_timestamp (row_of 41.0082 28.9784 (Some 5) 0)
     = 600000
   \<and> stops (analyzeRoute [row_of 41.0082 28.9784 (Some 5) 0, row_of 41.0122 28.9844 (Some 7) 600000])
     = [\<lparr>stop_latitude = Some 41.0122, stop_longitude = Some 28.9844,
         stop_duration = 10, stop_timestamp = 600000\<rparr>]
   \<and> ld_timestamp (row_of 41.0122 28.9844 (Some 7) 300000) - ld_timestamp (row_of 41.0082 28.9784 (Some 5) 0)
     = 300000
   \<and> stops (analyzeRoute [row_of 41.0082 28.9784 (Some 5) 0, row_of 41.0122 28.9844 (Some 7) 300000])
     = []"
proof -
  let ?a = "row_of 41.0082 28.9784 (Some 5) 0"
  let ?b = "row_of 41.0122 28.9844 (Some 7) 600000"
  let ?c = "row_of 41.0122 28.9844 (Some 7) 300000"
  have h1: "ld_timestamp ?b - ld_timestamp ?a = 600000" by (simp add: row_of_def)
  have h2: "ld_timestamp ?c - ld_timestamp ?a = 300000" by (simp add: row_of_def)
  from stops_at_long_gaps [where a = ?a and b = ?b, THEN conjunct2, THEN conjunct1, rule_format, OF h1]
  have r1: "stops (analyzeRoute [?a, ?b]) =
      [\<lparr>stop_latitude = Some 41.0122, stop_longitude = Some 28.9844,
        stop_duration = 10, stop_timestamp = 600000\<rparr>]"
    by (simp add: row_of_def)
  from stops_at_long_gaps [where a = ?a and b = ?c, THEN conjunct2, THEN conjunct2, rule_format, OF h2]
  have r2: "stops (analyzeRoute [?a, ?c]) = []" .
  from h1 r1 h2 r2 show ?thesis by blast
qed

section \<open>Fan-out\<close>

text \<open>
  What each step does to the membership of a room and to the events a socket has been
  sent. A room never lists a socket twice, so a publish sends a member one copy.
\<close>

lemma run_snoc: "run st (tr @ [x]) = fan_step (run st tr) x"
  by (simp add: run_def)

lemma member_join:
  "s \<in> set (rooms (join_tracking s' room' st) room) \<longleftrightarrow> (s' = s \<and> room' = room) \<or> s \<in> set (rooms st room)"
  by (auto simp: join_tracking_def sio_join_def sio_socket_emit_def Let_def)

lemma member_leave:
  "s \<in> set (rooms (leave_tracking s' room' st) room) \<longleftrightarrow> \<not> (s' = s \<and> room' = room) \<and> s \<in> set (rooms st room)"
  by (auto simp: leave_tracking_def sio_leave_def sio_socket_emit_def Let_def)

lemma rooms_on_disconnect: "rooms (on_disconnect s st) = rooms st"
  by (simp add: on_disconnect_def split: option.splits)

lemma delivered_on_disconnect: "delivered (on_disconnect s st) = delivered st"
  by (simp add: on_disconnect_def split: option.splits)

lemma member_disconnect:
  "s \<in> set (rooms (disconnect s' st) room) \<longleftrightarrow> s' \<noteq> s \<and> s \<in> set (rooms st room)"
  by (auto simp: disconnect_def rooms_on_disconnect sio_leave_all_def)

lemma rooms_publish: "rooms (sio_to_emit room ev st) = rooms st"
  by (simp add: sio_to_emit_def)

lemma distinct_join: "distinct (rooms st room) \<Longrightarrow> distinct (rooms (join_tracking s' room' st) room)"
  by (auto simp: join_tracking_def sio_join_def sio_socket_emit_def Let_def)

lemma distinct_leave: "distinct (rooms st room) \<Longrightarrow> distinct (rooms (leave_tracking s' room' st) room)"
  by (auto simp: leave_tracking_def sio_leave_def sio_socket_emit_def Let_def distinct_removeAll)

lemma distinct_disconnect: "distinct (rooms st room) \<Longrightarrow> distinct (rooms (disconnect s' st) room)"
  by (simp add: disconnect_def rooms_on_disconnect sio_leave_all_def distinct_removeAll)

lemma distinct_fan_step:
  "(\<And>room. distinct (rooms st room)) \<Longrightarrow> distinct (rooms (fan_step st x) room)"
  by (cases x) (simp_all add: distinct_join distinct_leave distinct_disconnect rooms_publish)

lemma distinct_run: "distinct (rooms (run server0 tr) room)"
proof (induction tr arbitrary: room rule: rev_induct)
  case Nil
  show ?case by (simp add: run_def server0_def)
next
  case (snoc x tr)
  show ?case unfolding run_snoc by (rule distinct_fan_step) (rule snoc.IH)
qed

lemma member_run: "s \<in> set (rooms (run server0 tr) room) \<longleftrightarrow> subscribed (rev tr) s room"
proof (induction tr rule: rev_induct)
  case Nil
  show ?case by (simp add: run_def server0_def)
next
  case (snoc x tr)
  then show ?case
    by (cases x) (simp_all add: run_snoc member_join member_leave member_disconnect rooms_publish)
qed

lemma updates_join: "updates_to s (join_tracking s' room st) = updates_to s st"
  by (simp add: updates_to_def join_tracking_def sio_join_def sio_socket_emit_def Let_def map_filter_def)

lemma updates_leave: "updates_to s (leave_tracking s' room st) = updates_to s st"
  by (simp add: updates_to_def leave_tracking_def sio_leave_def sio_socket_emit_def Let_def map_filter_def)

lemma updates_disconnect: "updates_to s (disconnect s' st) = updates_to s st"
  by (simp add: updates_to_def disconnect_def delivered_on_disconnect sio_leave_all_def)

lemma map_filter_single:
  "distinct xs \<Longrightarrow>
   List.map_filter (\<lambda>(s', ev). case ev of LocationUpdate u \<Rightarrow> (if s' = s then Some u else None) | _ \<Rightarrow> None)
     (map (\<lambda>s'. (s', LocationUpdate u)) xs) = (if s \<in> set xs then [u] else [])"
  by (induction xs) (auto simp: map_filter_def)

lemma map_filter_app: "List.map_filter f (xs @ ys) = List.map_filter f xs @ List.map_filter f ys"
  by (simp add: map_filter_def)

lemma updates_publish:
  "distinct (rooms st room) \<Longrightarrow>
   updates_to s (sio_to_emit room (LocationUpdate u) st) =
     updates_to s st @ (if s \<in> set (rooms st room) then [u] else [])"
  using map_filter_single [of "rooms st room" s u]
  by (simp add: updates_to_def sio_to_emit_def map_filter_app)

lemma updates_run: "updates_to s (run server0 tr) = expected (rev tr) s"
proof (induction tr rule: rev_induct)
  case Nil
  show ?case by (simp add: run_def server0_def updates_to_def map_filter_def)
next
  case (snoc x tr)
  then show ?case
    by (cases x)
       (simp_all add: run_snoc updates_join updates_leave updates_disconnect
          updates_publish [OF distinct_run] member_run)
qed

text \<open>The subscription of a socket, read off the trace.\<close>

lemma no_join_after_disconnect:
  "\<forall>x\<in>set newer. \<forall>room. x \<noteq> JoinTracking s room \<Longrightarrow>
   \<not> subscribed (newer @ Disconnect s # older) s room"
proof (induction newer)
  case Nil
  show ?case by simp
next
  case (Cons x newer)
  then show ?case by (cases x) auto
qed

lemma expected_after_disconnect:
  "\<forall>x\<in>set newer. \<forall>room. x \<noteq> JoinTracking s room \<Longrightarrow>
   expected (newer @ Disconnect s # older) s = expected older s"
proof (induction newer)
  case Nil
  show ?case by simp
next
  case (Cons x newer)
  then show ?case by (cases x) (auto simp: no_join_after_disconnect)
qed

lemma never_joined:
  "\<forall>x\<in>set tr. x \<noteq> JoinTracking s room \<Longrightarrow> \<not> subscribed tr s room"
proof (induction tr)
  case Nil
  show ?case by simp
next
  case (Cons x tr)
  then show ?case by (cases x) auto
qed

lemma still_joined:
  "\<forall>x\<in>set newer. x \<noteq> Disconnect s \<and> x \<noteq> LeaveTracking s room \<Longrightarrow>
   subscribed (newer @ JoinTracking s room # older) s room"
proof (induction newer)
  case Nil
  show ?case by simp
next
  case (Cons x newer)
  then show ?case by (cases x) auto
qed

text \<open>
  C9. From the start of the server, over any sequence of join, leave, disconnect and
  publish steps, the \<^verbatim>\<open>location-update\<close> events a socket has been sent are exactly
  the events published to a room while the socket was subscribed to it, in the order of
  publication. In particular: once a socket has joined a room, and as long as it neither
  disconnects nor leaves the room, a publish to the room reaches it; a publish to a room
  the socket has never joined does not reach it; and after a socket's disconnect nothing
  more reaches it, whatever the other sockets do (a closed socket sends no join).
\<close>

theorem fanout_order:
  "updates_to s (run server0 tr) = expected (rev tr) s
   \<and> ((\<forall>x\<in>set mid. x \<noteq> Disconnect s \<and> x \<noteq> LeaveTracking s room) \<longrightarrow>
        updates_to s (run server0 (pre @ JoinTracking s room # mid @ [Publish room u]))
          = updates_to s (run server0 (pre @ JoinTracking s room # mid)) @ [u])
   \<and> ((\<forall>x\<in>set tr. x \<noteq> JoinTracking s room) \<longrightarrow>
        updates_to s (run server0 (tr @ [Publish room u])) = updates_to s (run server0 tr))
   \<and> ((\<forall>x\<in>set post. \<forall>room. x \<noteq> JoinTracking s room) \<longrightarrow>
        updates_to s (run server0 (pre @ Disconnect s # post)) = updates_to s (run server0 pre))"
proof (intro conjI impI)
  show "updates_to s (run server0 tr) = expected (rev tr) s" by (rule updates_run)
next
  assume "\<forall>x\<in>set mid. x \<noteq> Disconnect s \<and> x \<noteq> LeaveTracking s room"
  then have "subscribed (rev mid @ JoinTracking s room # rev pre) s room"
    by (intro still_joined) simp
  then show "updates_to s (run server0 (pre @ JoinTracking s room # mid @ [Publish room u]))
          = updates_to s (run server0 (pre @ JoinTracking s room # mid)) @ [u]"
    by (simp add: updates_run)
next
  assume "\<forall>x\<in>set tr. x \<noteq> JoinTracking s room"
  then have "\<not> subscribed (rev tr) s room" by (intro never_joined) simp
  then show "updates_to s (run server0 (tr @ [Publish room u])) = updates_to s (run server0 tr)"
    by (simp add: updates_run)
next
  assume "\<forall>x\<in>set post. \<forall>room. x \<noteq> JoinTracking s room"
  then have "expected (rev post @ Disconnect s # rev pre) s = expected (rev pre) s"
    by (intro expected_after_disconnect) simp
  then show "updates_to s (run server0 (pre @ Disconnect s # post)) = updates_to s (run server0 pre)"
    by (simp add: updates_run)
qed


theorem fanout_order_witness:
  "updates_to ''a'' (run server0
      [JoinTracking ''a'' (Val ''t1''), JoinTracking ''b'' (Val ''t1''),
       Publish (Val ''t1'') (update_of 41.0082 28.9784 0)])
     = [update_of 41.0082 28.9784 0]
   \<and> updates_to ''a'' (run server0
      [JoinTracking ''b'' (Val ''t1''), Publish (Val ''t1'') (update_of 41.0082 28.9784 0)])
     = []
   \<and> updates_to ''a'' (run server0
      [JoinTracking ''a'' (Val ''t1''), JoinTracking ''b'' (Val ''t1''),
       Publish (Val ''t1'') (update_of 41.0082 28.9784 0), Disconnect ''a'',
       Publish (Val ''t1'') (update_of 41.0122 28.9844 120000)])
     = [update_of 41.0082 28.9784 0]
   \<and> updates_to ''b'' (run server0
      [JoinTracking ''a'' (Val ''t1''), JoinTracking ''b'' (Val ''t1''),
       Publish (Val ''t1'') (update_of 41.0082 28.9784 0), Disconnect ''a'',
       Publish (Val ''t1'') (update_of 41.0122 28.9844 120000)])
     = [update_of 41.0082 28.9784 0, update_of 41.0122 28.9844 120000]"
proof -
  let ?ja = "JoinTracking ''a'' (Val ''t1'')"
  let ?jb = "JoinTracking ''b'' (Val ''t1'')"
  let ?u1 = "update_of 41.0082 28.9784 0"
  let ?u2 = "update_of 41.0122 28.9844 120000"
  let ?p1 = "Publish (Val ''t1'') ?u1"
  let ?p2 = "Publish (Val ''t1'') ?u2"
  have h2: "\<forall>x\<in>set [?jb]. x \<noteq> Disconnect ''a'' \<and> x \<noteq> LeaveTracking ''a'' (Val ''t1'')"
    by simp
  have h3: "\<forall>x\<in>set [?jb]. x \<noteq> JoinTracking ''a'' (Val ''t1'')" by simp
  have h4: "\<forall>x\<in>set [?p2]. \<forall>room. x \<noteq> JoinTracking ''a'' room" by simp
  have e0: "updates_to ''a'' (run server0 [?ja, ?jb]) = []"
    using fanout_order [where s = "''a''" and tr = "[?ja, ?jb]", THEN conjunct1] by simp
  have a: "updates_to ''a'' (run server0 [?ja, ?jb, ?p1]) = [?u1]"
    using fanout_order [where s = "''a''" and room = "Val ''t1''" and pre = "[]" and mid = "[?jb]"
        and u = ?u1, THEN conjunct2, THEN conjunct1, THEN mp, OF h2] e0
    by simp
  have e1: "updates_to ''a'' (run server0 [?jb]) = []"
    using fanout_order [where s = "''a''" and tr = "[?jb]", THEN conjunct1] by simp
  have b: "updates_to ''a'' (run server0 [?jb, ?p1]) = []"
    using fanout_order [where s = "''a''" and room = "Val ''t1''" and tr = "[?jb]" and u = ?u1,
        THEN conjunct2, THEN conjunct2, THEN conjunct1, THEN mp, OF h3] e1
    by simp
  have c: "updates_to ''a'' (run server0 [?ja, ?jb, ?p1, Disconnect ''a'', ?p2]) = [?u1]"
    using fanout_order [where s = "''a''" and pre = "[?ja, ?jb, ?p1]" and post = "[?p2]",
        THEN conjunct2, THEN conjunct2, THEN conjunct2, THEN mp, OF h4] a
    by simp
  have d: "updates_to ''b'' (run server0 [?ja, ?jb, ?p1, Disconnect ''a'', ?p2]) = [?u1, ?u2]"
    using fanout_order [where s = "''b''" and tr = "[?ja, ?jb, ?p1, Disconnect ''a'', ?p2]",
        THEN conjunct1]
    by simp
  from a b c d show ?thesis by blast
qed

section \<open>Bounds for sine, cosine, arctangent and pi\<close>

text \<open>
  Polynomial bounds for sine and cosine from their Maclaurin expansions; from them
  \<open>3.14 < pi < 3.142\<close>, since the sine of \<open>pi / 6\<close> is one half; and bounds for the
  arctangent of a small number through the tangent.
\<close>

lemma sin_sum3: "(\<Sum>m<3. sin_coeff m * x ^ m) = x" for x :: real
  by (simp add: eval_nat_numeral sin_coeff_Suc cos_coeff_Suc)

lemma sin_sum7: "(\<Sum>m<7. sin_coeff m * x ^ m) = x - x ^ 3 / 6 + x ^ 5 / 120" for x :: real
  by (simp add: eval_nat_numeral sin_coeff_Suc cos_coeff_Suc)

lemma fact7: "inverse (fact 7 :: real) = 1 / 5040"
  by (simp add: eval_nat_numeral)

lemma fact3: "inverse (fact 3 :: real) = 1 / 6"
  by (simp add: eval_nat_numeral)

lemma sin_poly3: "\<bar>sin x - x\<bar> \<le> \<bar>x\<bar> ^ 3 / 6" for x :: real
  using Maclaurin_sin_bound [of x 3] unfolding sin_sum3 fact3 by simp

lemma sin_poly7: "\<bar>sin x - (x - x ^ 3 / 6 + x ^ 5 / 120)\<bar> \<le> \<bar>x\<bar> ^ 7 / 5040" for x :: real
  using Maclaurin_sin_bound [of x 7] unfolding sin_sum7 fact7 by simp

lemma cos_sum2: "(\<Sum>m<2. cos_coeff m * x ^ m) = 1" for x :: real
  by (simp add: eval_nat_numeral sin_coeff_Suc cos_coeff_Suc)

lemma cos_sum4: "(\<Sum>m<4. cos_coeff m * x ^ m) = 1 - x ^ 2 / 2" for x :: real
  by (simp add: eval_nat_numeral sin_coeff_Suc cos_coeff_Suc)

lemma cos_remainder:
  "\<bar>cos x - (\<Sum>m<n. cos_coeff m * x ^ m)\<bar> \<le> \<bar>x\<bar> ^ n / fact n" for x :: real
proof -
  obtain t where t: "cos x = (\<Sum>m<n. cos_coeff m * x ^ m) + (cos (t + 1/2 * real n * pi) / fact n) * x ^ n"
    using Maclaurin_cos_expansion [of x n] by blast
  have "\<bar>cos x - (\<Sum>m<n. cos_coeff m * x ^ m)\<bar> = \<bar>cos (t + 1/2 * real n * pi)\<bar> * (\<bar>x\<bar> ^ n / fact n)"
    using t by (simp add: abs_mult power_abs)
  also have "\<dots> \<le> 1 * (\<bar>x\<bar> ^ n / fact n)"
    by (rule mult_right_mono) simp_all
  finally show ?thesis by simp
qed

lemma cos_lower2: "1 - x ^ 2 / 2 \<le> cos x" for x :: real
  using cos_remainder [of x 2] unfolding cos_sum2 by (simp add: eval_nat_numeral)

lemma fact4: "(fact 4 :: real) = 24"
  by (simp add: eval_nat_numeral)

lemma cos_upper4: "cos x \<le> 1 - x ^ 2 / 2 + x ^ 4 / 24" for x :: real
proof -
  have "\<bar>cos x - (1 - x ^ 2 / 2)\<bar> \<le> \<bar>x\<bar> ^ 4 / 24"
    using cos_remainder [of x 4] unfolding cos_sum4 fact4 .
  moreover have "\<bar>x\<bar> ^ 4 = x ^ 4" by simp
  ultimately show ?thesis by linarith
qed

lemma abs_diff_bounds: "\<bar>a - b\<bar> \<le> c \<Longrightarrow> b - c \<le> a \<and> a \<le> b + c" for a b c :: real
  by linarith

lemma sin_lower3: "0 \<le> x \<Longrightarrow> x - x ^ 3 / 6 \<le> sin x" for x :: real
  using abs_diff_bounds [OF sin_poly3 [of x]] by simp

lemma sin_upper7: "0 \<le> x \<Longrightarrow> sin x \<le> x - x ^ 3 / 6 + x ^ 5 / 120 + x ^ 7 / 5040" for x :: real
  using abs_diff_bounds [OF sin_poly7 [of x]] by simp

lemma sin_lower7: "0 \<le> x \<Longrightarrow> x - x ^ 3 / 6 + x ^ 5 / 120 - x ^ 7 / 5040 \<le> sin x" for x :: real
  using abs_diff_bounds [OF sin_poly7 [of x]] by simp

lemma pi_gt_314: "157 / 50 < pi"
proof -
  let ?z = "157 / 300 :: real"
  have "sin ?z \<le> ?z - ?z ^ 3 / 6 + ?z ^ 5 / 120 + ?z ^ 7 / 5040"
    by (rule sin_upper7) simp
  also have "\<dots> < 1 / 2" by (simp add: power_divide)
  finally have "sin ?z < sin (pi / 6)" by (simp add: sin_30)
  moreover have "- (pi / 2) \<le> ?z" "?z \<le> pi / 2" "- (pi / 2) \<le> pi / 6" "pi / 6 \<le> pi / 2"
    using pi_ge_two by simp_all
  ultimately have "?z < pi / 6" by (simp add: sin_mono_less_eq)
  then show ?thesis by simp
qed

lemma pi_lt_3142: "pi < 1571 / 500"
proof -
  let ?w = "1571 / 3000 :: real"
  have "1 / 2 < ?w - ?w ^ 3 / 6 + ?w ^ 5 / 120 - ?w ^ 7 / 5040" by (simp add: power_divide)
  also have "\<dots> \<le> sin ?w"
    by (rule sin_lower7) simp
  finally have "sin (pi / 6) < sin ?w" by (simp add: sin_30)
  moreover have "- (pi / 2) \<le> ?w" "?w \<le> pi / 2" "- (pi / 2) \<le> pi / 6" "pi / 6 \<le> pi / 2"
    using pi_ge_two by simp_all
  ultimately have "pi / 6 < ?w" by (simp add: sin_mono_less_eq)
  then show ?thesis by simp
qed


lemma arctan_ge:
  assumes "0 \<le> v" "v \<le> 1" "v \<le> t * (1 - v ^ 2 / 2)"
  shows "v \<le> arctan t"
proof -
  have half: "(1::real) / 2 \<le> 1 - v ^ 2 / 2"
  proof -
    have "v ^ 2 \<le> 1 ^ 2" using assms(1,2) by (intro power_mono) simp_all
    then show ?thesis by simp
  qed
  have c: "1 - v ^ 2 / 2 \<le> cos v" by (rule cos_lower2)
  have cpos: "0 < cos v" using half c by linarith
  have vpi: "v < pi / 2" using assms(2) pi_gt_314 by linarith
  have tpos: "0 \<le> t"
  proof (rule ccontr)
    assume "\<not> 0 \<le> t"
    then have "t * (1 - v ^ 2 / 2) < 0" using half by (simp add: mult_neg_pos)
    with assms(1,3) show False by linarith
  qed
  have "sin v \<le> v" using assms(1) by (rule sin_x_le_x)
  also have "v \<le> t * (1 - v ^ 2 / 2)" by (rule assms(3))
  also have "\<dots> \<le> t * cos v" using c tpos by (rule mult_left_mono)
  finally have "sin v / cos v \<le> t" using cpos by (simp add: field_simps)
  then have "arctan (tan v) \<le> arctan t" by (simp add: tan_def arctan_le_iff)
  moreover have "arctan (tan v) = v" using assms(1) vpi by (intro arctan_tan) linarith+
  ultimately show ?thesis by simp
qed

lemma arctan_le:
  assumes "0 \<le> u" "u \<le> 1" "t \<le> u - u ^ 3 / 6"
  shows "arctan t \<le> u"
proof -
  have upi: "u < pi / 2" using assms(2) pi_gt_314 by linarith
  have cpos: "0 < cos u" using assms(1) upi by (intro cos_gt_zero_pi) linarith+
  have s0: "0 \<le> sin u" using assms(1) upi by (intro sin_ge_zero) linarith+
  have "t \<le> sin u" using assms(3) sin_lower3 [OF assms(1)] by linarith
  also have "sin u = sin u * 1" by simp
  also have "\<dots> \<le> sin u * (1 / cos u)"
    using s0 cpos by (intro mult_left_mono) (simp_all add: field_simps)
  finally have "t \<le> tan u" by (simp add: tan_def)
  then have "arctan t \<le> arctan (tan u)" by (simp add: arctan_le_iff)
  moreover have "arctan (tan u) = u" using assms(1) upi by (intro arctan_tan) linarith+
  ultimately show ?thesis by simp
qed

section \<open>Distances\<close>

text \<open>
  Both square roots of \<^verbatim>\<open>calculateDistance\<close> are taken of numbers that are not
  negative, whatever the coordinates: the real square root agrees with \<^verbatim>\<open>Math.sqrt\<close>
  there.
\<close>

lemma haversine_in_unit_interval:
  fixes p1 p2 l :: real
  defines "a \<equiv> sin ((p2 - p1) / 2) * sin ((p2 - p1) / 2) + cos p1 * cos p2 * sin (l / 2) * sin (l / 2)"
  shows "0 \<le> a \<and> a \<le> 1"
proof -
  define s where "s = sin (l / 2) * sin (l / 2)"
  define cd where "cd = cos (p2 - p1)"
  define cs where "cs = cos (p2 + p1)"
  have s0: "0 \<le> s" by (simp add: s_def)
  have s1: "s \<le> 1"
  proof -
    have "s = 1 - cos (l / 2) * cos (l / 2)"
      using sin_cos_squared_add3 [of "l / 2"] unfolding s_def by linarith
    then show ?thesis by simp
  qed
  have cdb: "- 1 \<le> cd" "cd \<le> 1" by (simp_all add: cd_def)
  have csb: "- 1 \<le> cs" "cs \<le> 1" by (simp_all add: cs_def)
  have h: "sin ((p2 - p1) / 2) * sin ((p2 - p1) / 2) = (1 - cd) / 2"
  proof -
    have "2 * ((p2 - p1) / 2) = p2 - p1" by simp
    then have "cos (p2 - p1) = 1 - 2 * (sin ((p2 - p1) / 2))\<^sup>2"
      using cos_double_sin [of "(p2 - p1) / 2"] by (simp only:)
    then show ?thesis unfolding cd_def power2_eq_square by simp
  qed
  have p: "cos p1 * cos p2 = (cd + cs) / 2"
    by (simp add: cd_def cs_def cos_add cos_diff)
  have a_eq: "a = (1 - cd) / 2 + (cd + cs) / 2 * s"
    unfolding a_def h [symmetric] p [symmetric] s_def by (simp add: mult.assoc)
  have m1: "- (1 - s) \<le> (1 - s) * cd" "(1 - s) * cd \<le> 1 - s"
    using s1 cdb mult_left_mono [of "- 1" cd "1 - s"] mult_left_mono [of cd 1 "1 - s"] by simp_all
  have m2: "- s \<le> s * cs" "s * cs \<le> s"
    using s0 csb mult_left_mono [of "- 1" cs s] mult_left_mono [of cs 1 s] by simp_all
  have "a = 1 / 2 - (1 - s) * cd / 2 + s * cs / 2"
    unfolding a_eq by (simp add: field_simps)
  then show ?thesis using m1 m2 by linarith
qed

lemma calculateDistance_roots:
  fixes lat1 lon1 lat2 lon2 :: real
  defines "a \<equiv> sin ((lat2 - lat1) * pi / 180 / 2) * sin ((lat2 - lat1) * pi / 180 / 2) +
              cos (lat1 * pi / 180) * cos (lat2 * pi / 180) *
              sin ((lon2 - lon1) * pi / 180 / 2) * sin ((lon2 - lon1) * pi / 180 / 2)"
  shows "0 \<le> a \<and> 0 \<le> 1 - a"
proof -
  have e: "(lat2 * pi / 180 - lat1 * pi / 180) / 2 = (lat2 - lat1) * pi / 180 / 2"
    by (simp add: field_simps)
  note h = haversine_in_unit_interval [of "lat2 * pi / 180" "lat1 * pi / 180"
      "(lon2 - lon1) * pi / 180", unfolded e]
  from h have "0 \<le> a" "a \<le> 1" unfolding a_def by blast+
  then show ?thesis by simp
qed

text \<open>
  The distance between (41.0082, 28.9784) and (41.0122, 28.9844): the formula at these
  points, bounds for its parts, and the result, between 0.665 km and 0.675 km.
\<close>

lemma istanbul_unfold:
  "calculateDistance 41.0082 28.9784 41.0122 28.9844 =
     6371 * (2 * atan2
       (sqrt (sin (pi / 90000) * sin (pi / 90000) +
              cos (205041 * pi / 900000) * cos (205061 * pi / 900000) *
              sin (pi / 60000) * sin (pi / 60000)))
       (sqrt (1 - (sin (pi / 90000) * sin (pi / 90000) +
              cos (205041 * pi / 900000) * cos (205061 * pi / 900000) *
              sin (pi / 60000) * sin (pi / 60000)))))"
proof -
  have 1: "(41.0122 - 41.0082) * pi / 180 / 2 = pi / 90000" by simp
  have 2: "(28.9844 - 28.9784) * pi / 180 / 2 = pi / 60000" by simp
  have 3: "41.0082 * pi / 180 = 205041 * pi / 900000" by simp
  have 4: "41.0122 * pi / 180 = 205061 * pi / 900000" by simp
  show ?thesis unfolding calculateDistance_def Let_def 1 2 3 4 ..
qed


lemma atan2_pos: "0 < x \<Longrightarrow> atan2 y x = arctan (y / x)"
  by (simp add: atan2_def)

lemma atan2_sqrt_bounds:
  assumes A: "0 \<le> A" "A \<le> 1 - (9999 / 10000) ^ 2"
    and rl: "0 \<le> rl" "rl ^ 2 \<le> A"
    and rh: "0 \<le> rh" "A \<le> rh ^ 2"
    and v: "0 \<le> v" "v \<le> 1" "v \<le> rl * (1 - v ^ 2 / 2)"
    and u: "0 \<le> u" "u \<le> 1" "rh / (9999 / 10000) \<le> u - u ^ 3 / 6"
  shows "v \<le> atan2 (sqrt A) (sqrt (1 - A)) \<and> atan2 (sqrt A) (sqrt (1 - A)) \<le> u"
proof -
  let ?q = "sqrt (1 - A)"
  have q_lo: "9999 / 10000 \<le> ?q" using A(2) by (intro real_le_rsqrt) simp
  have q_hi: "?q \<le> 1" using A(1) by (intro real_le_lsqrt) simp_all
  have q_pos: "0 < ?q" using q_lo by linarith
  have s_lo: "rl \<le> sqrt A" using rl(2) by (rule real_le_rsqrt)
  have s_hi: "sqrt A \<le> rh" using rh by (intro real_le_lsqrt) simp_all
  have s0: "0 \<le> sqrt A" using A(1) by simp
  let ?t = "sqrt A / ?q"
  have t_lo: "rl \<le> ?t"
  proof -
    have "sqrt A * ?q \<le> sqrt A * 1" using q_hi s0 by (rule mult_left_mono)
    then have "sqrt A \<le> ?t" using q_pos by (simp add: field_simps)
    with s_lo show ?thesis by linarith
  qed
  have t_hi: "?t \<le> rh / (9999 / 10000)"
    by (rule frac_le [OF rh(1) s_hi _ q_lo]) simp
  have half: "0 \<le> 1 - v ^ 2 / 2"
  proof -
    have "v ^ 2 \<le> 1 ^ 2" using v(1,2) by (intro power_mono) simp_all
    then show ?thesis by simp
  qed
  have "v \<le> rl * (1 - v ^ 2 / 2)" by (rule v(3))
  also have "\<dots> \<le> ?t * (1 - v ^ 2 / 2)" using t_lo half by (rule mult_right_mono)
  finally have lower: "v \<le> arctan ?t" using v(1,2) by (intro arctan_ge) simp_all
  have "?t \<le> u - u ^ 3 / 6" using t_hi u(3) by linarith
  then have upper: "arctan ?t \<le> u" using u(1,2) by (intro arctan_le) simp_all
  show ?thesis using lower upper by (simp add: atan2_pos [OF q_pos])
qed

lemma haversine_sum_bounds:
  fixes sx sy c1 c2 :: real
  assumes "0 \<le> sxl" "sxl \<le> sx" "sx \<le> sxh"
    and "0 \<le> syl" "syl \<le> sy" "sy \<le> syh"
    and "0 \<le> c1l" "c1l \<le> c1" "c1 \<le> c1h"
    and "0 \<le> c2l" "c2l \<le> c2" "c2 \<le> c2h"
  shows "sxl * sxl + c1l * c2l * syl * syl \<le> sx * sx + c1 * c2 * sy * sy
       \<and> sx * sx + c1 * c2 * sy * sy \<le> sxh * sxh + c1h * c2h * syh * syh"
proof -
  have a: "sxl * sxl \<le> sx * sx" using assms by (intro mult_mono) simp_all
  have b: "sx * sx \<le> sxh * sxh" using assms by (intro mult_mono) simp_all
  have c: "c1l * c2l \<le> c1 * c2" using assms by (intro mult_mono) simp_all
  have d: "c1 * c2 \<le> c1h * c2h" using assms by (intro mult_mono) simp_all
  have e: "c1l * c2l * syl \<le> c1 * c2 * sy" using assms c by (intro mult_mono) simp_all
  have f: "c1 * c2 * sy \<le> c1h * c2h * syh" using assms d by (intro mult_mono) simp_all
  have g: "c1l * c2l * syl * syl \<le> c1 * c2 * sy * sy" using assms e by (intro mult_mono) simp_all
  have h: "c1 * c2 * sy * sy \<le> c1h * c2h * syh * syh" using assms f by (intro mult_mono) simp_all
  show ?thesis using a b g h by linarith
qed


lemma sin_between:
  fixes x :: real
  assumes "0 \<le> lo" "lo \<le> x" "x \<le> hi" "l \<le> lo - hi ^ 3 / 6" "hi \<le> h"
  shows "l \<le> sin x \<and> sin x \<le> h"
proof -
  have x0: "0 \<le> x" using assms(1,2) by linarith
  have "x ^ 3 \<le> hi ^ 3" using x0 assms(3) by (intro power_mono) simp_all
  moreover have "x - x ^ 3 / 6 \<le> sin x" using x0 by (rule sin_lower3)
  moreover have "sin x \<le> x" using x0 by (rule sin_x_le_x)
  ultimately show ?thesis using assms(2-5) by linarith
qed

lemma cos_between:
  fixes x :: real
  assumes "0 \<le> lo" "lo \<le> x" "x \<le> hi"
    and "l \<le> 1 - hi ^ 2 / 2" "1 - lo ^ 2 / 2 + hi ^ 4 / 24 \<le> h"
  shows "l \<le> cos x \<and> cos x \<le> h"
proof -
  have x0: "0 \<le> x" using assms(1,2) by linarith
  have "x ^ 2 \<le> hi ^ 2" using x0 assms(3) by (intro power_mono) simp_all
  moreover have "x ^ 4 \<le> hi ^ 4" using x0 assms(3) by (intro power_mono) simp_all
  moreover have "lo ^ 2 \<le> x ^ 2" using assms(1,2) by (intro power_mono) simp_all
  moreover have "1 - x ^ 2 / 2 \<le> cos x" by (rule cos_lower2)
  moreover have "cos x \<le> 1 - x ^ 2 / 2 + x ^ 4 / 24" by (rule cos_upper4)
  ultimately show ?thesis using assms(4,5) by linarith
qed

lemma istanbul_sx: "34888 / 10 ^ 9 \<le> sin (pi / 90000) \<and> sin (pi / 90000) \<le> 34912 / 10 ^ 9"
proof (rule sin_between [where lo = "157 / 4500000" and hi = "1571 / 45000000"])
  show "157 / 4500000 \<le> pi / 90000" using pi_gt_314 by simp
  show "pi / 90000 \<le> 1571 / 45000000" using pi_lt_3142 by simp
qed (simp_all add: power_divide)

lemma istanbul_sy: "52333 / 10 ^ 9 \<le> sin (pi / 60000) \<and> sin (pi / 60000) \<le> 52367 / 10 ^ 9"
proof (rule sin_between [where lo = "157 / 3000000" and hi = "1571 / 30000000"])
  show "157 / 3000000 \<le> pi / 60000" using pi_gt_314 by simp
  show "pi / 60000 \<le> 1571 / 30000000" using pi_lt_3142 by simp
qed (simp_all add: power_divide)

lemma istanbul_c1:
  "7437 / 10000 \<le> cos (205041 * pi / 900000) \<and> cos (205041 * pi / 900000) \<le> 7551 / 10000"
proof (rule cos_between [where lo = "10730479 / 15000000" and hi = "107373137 / 150000000"])
  show "10730479 / 15000000 \<le> 205041 * pi / 900000" using pi_gt_314 by simp
  show "205041 * pi / 900000 \<le> 107373137 / 150000000" using pi_lt_3142 by simp
qed (simp_all add: power_divide)

lemma istanbul_c2:
  "7437 / 10000 \<le> cos (205061 * pi / 900000) \<and> cos (205061 * pi / 900000) \<le> 7551 / 10000"
proof (rule cos_between [where lo = "32194577 / 45000000" and hi = "322150831 / 450000000"])
  show "32194577 / 45000000 \<le> 205061 * pi / 900000" using pi_gt_314 by simp
  show "205061 * pi / 900000 \<le> 322150831 / 450000000" using pi_lt_3142 by simp
qed (simp_all add: power_divide)

lemma istanbul_distance:
  "133 / 200 \<le> calculateDistance 41.0082 28.9784 41.0122 28.9844
   \<and> calculateDistance 41.0082 28.9784 41.0122 28.9844 < 27 / 40"
proof -
  let ?A = "sin (pi / 90000) * sin (pi / 90000) +
            cos (205041 * pi / 900000) * cos (205061 * pi / 900000) *
            sin (pi / 60000) * sin (pi / 60000)"
  let ?Al = "34888 / 10 ^ 9 * (34888 / 10 ^ 9) +
             7437 / 10000 * (7437 / 10000) * (52333 / 10 ^ 9) * (52333 / 10 ^ 9) :: real"
  let ?Ah = "34912 / 10 ^ 9 * (34912 / 10 ^ 9) +
             7551 / 10000 * (7551 / 10000) * (52367 / 10 ^ 9) * (52367 / 10 ^ 9) :: real"
  have AB: "?Al \<le> ?A \<and> ?A \<le> ?Ah"
    using istanbul_sx istanbul_sy istanbul_c1 istanbul_c2
    by (intro haversine_sum_bounds) simp_all
  have n1: "(0::real) \<le> ?Al" by simp
  have n2: "?Ah \<le> (1::real) - (9999 / 10000) ^ 2" by (simp add: power_divide)
  have n3: "(52265 / 10 ^ 9 :: real) ^ 2 \<le> ?Al" by (simp add: power_divide)
  have n4: "?Ah \<le> (52750 / 10 ^ 9 :: real) ^ 2" by (simp add: power_divide)
  have c: "5219 / 10 ^ 8 \<le> atan2 (sqrt ?A) (sqrt (1 - ?A)) \<and>
           atan2 (sqrt ?A) (sqrt (1 - ?A)) \<le> 528 / 10 ^ 7"
  proof (rule atan2_sqrt_bounds [where rl = "52265 / 10 ^ 9" and rh = "52750 / 10 ^ 9"])
    show "0 \<le> ?A" using AB n1 by linarith
    show "?A \<le> 1 - (9999 / 10000) ^ 2" using AB n2 by linarith
    show "(52265 / 10 ^ 9) ^ 2 \<le> ?A" using AB n3 by linarith
    show "?A \<le> (52750 / 10 ^ 9) ^ 2" using AB n4 by linarith
    show "(5219 / 10 ^ 8 :: real) \<le> 52265 / 10 ^ 9 * (1 - (5219 / 10 ^ 8) ^ 2 / 2)"
      by (simp add: power_divide)
    show "(52750 / 10 ^ 9 :: real) / (9999 / 10000) \<le> 528 / 10 ^ 7 - (528 / 10 ^ 7) ^ 3 / 6"
      by (simp add: power_divide)
  qed (simp_all add: power_divide)
  show ?thesis unfolding istanbul_unfold using c by simp
qed

text \<open>
  Along a meridian the formula gives the difference of latitude as an arc of the Earth:
  one degree is a little more than 111 km.
\<close>

lemma meridian_distance:
  assumes "lat1 \<le> lat2" "lat2 - lat1 < 180"
  shows "calculateDistance lat1 lon lat2 lon = 6371 * ((lat2 - lat1) * pi / 180)"
proof -
  let ?x = "(lat2 - lat1) * pi / 180 / 2"
  have x0: "0 \<le> ?x" using assms(1) by simp
  have "(lat2 - lat1) * pi < 180 * pi" using assms(2) by (intro mult_strict_right_mono) simp_all
  then have x1: "?x < pi / 2" by simp
  have c: "0 < cos ?x" using x0 x1 by (intro cos_gt_zero_pi) linarith+
  have s: "0 \<le> sin ?x" using x0 x1 by (intro sin_ge_zero) linarith+
  have sq: "sqrt (sin ?x * sin ?x) = sin ?x" using s by simp
  have "1 - sin ?x * sin ?x = cos ?x * cos ?x"
    using sin_cos_squared_add3 [of ?x] by linarith
  then have cq: "sqrt (1 - sin ?x * sin ?x) = cos ?x" using c by simp
  have "atan2 (sin ?x) (cos ?x) = arctan (tan ?x)" using c by (simp add: atan2_pos tan_def)
  also have "\<dots> = ?x" using x0 x1 by (intro arctan_tan) linarith+
  finally have fin: "atan2 (sqrt (sin ?x * sin ?x)) (sqrt (1 - sin ?x * sin ?x)) = ?x"
    by (simp only: sq cq)
  have a_eq: "sin ?x * sin ?x + cos (lat1 * pi / 180) * cos (lat2 * pi / 180) *
       sin ((lon - lon) * pi / 180 / 2) * sin ((lon - lon) * pi / 180 / 2) = sin ?x * sin ?x"
    by simp
  show ?thesis unfolding calculateDistance_def Let_def a_eq fin by simp
qed

lemma one_degree_north:
  "111 < calculateDistance 41 29 42 29 \<and> calculateDistance 41 29 42 29 < 112"
proof -
  have "calculateDistance 41 29 42 29 = 6371 * ((42 - 41) * pi / 180)"
    by (rule meridian_distance) simp_all
  then show ?thesis using pi_gt_314 pi_lt_3142 by simp
qed

section \<open>Geofences\<close>

text \<open>
  When the doubles give \<^verbatim>\<open>NaN\<close>, and what they give when the term \<open>a\<close> is computed
  without error: the great-circle distance in kilometres.
\<close>

lemma calculateDistance_fl_None:
  "(calculateDistance_fl rnd lat1 lon1 lat2 lon2 = None) =
     (haversine_term lat1 lon1 lat2 lon2 + rnd lat1 lon1 lat2 lon2 < 0
      \<or> 1 < haversine_term lat1 lon1 lat2 lon2 + rnd lat1 lon1 lat2 lon2)"
  by (auto simp: calculateDistance_fl_def haversine_term_def Math_sqrt_def Let_def)

lemma calculateDistance_fl_exact:
  assumes "rnd lat1 lon1 lat2 lon2 = 0"
  shows "calculateDistance_fl rnd lat1 lon1 lat2 lon2 = Some (calculateDistance lat1 lon1 lat2 lon2)"
  using calculateDistance_roots [of lat2 lat1 lon2 lon1] assms
  unfolding calculateDistance_fl_def calculateDistance_def Math_sqrt_def Let_def
  by (simp add: not_less [symmetric])

lemma geofence_hit_iff:
  "(geofence_hit rnd (Val la) (Val lo) g \<noteq> None) =
     (\<exists>d. calculateDistance_fl rnd la lo (num (gf_latitude g)) (num (gf_longitude g)) = Some d
          \<and> d \<le> num (gf_radius g))"
  by (simp add: geofence_hit_def split: option.splits)

lemma map_filter_geofence_hit:
  "List.map_filter (geofence_hit rnd (Val la) (Val lo)) rows =
     map (\<lambda>g. \<lparr>tg_id = gf_id g, tg_action = gf_action g,
                 tg_distance =
                   (case calculateDistance_fl rnd la lo (num (gf_latitude g)) (num (gf_longitude g)) of
                      Some d \<Rightarrow> Math_round (d * 1000) | None \<Rightarrow> 0)\<rparr>)
       (filter (\<lambda>g. case calculateDistance_fl rnd la lo (num (gf_latitude g)) (num (gf_longitude g)) of
                       Some d \<Rightarrow> d \<le> num (gf_radius g) | None \<Rightarrow> False) rows)"
  by (induction rows) (simp_all add: map_filter_simps geofence_hit_def split: option.splits)

text \<open>
  One degree of latitude north of (41, 29) the doubles give a number between 108 and 115,
  whatever rounding error of at most \<open>10\<^sup>-\<^sup>9\<close> the term \<open>a\<close> carries.
\<close>

lemma one_degree_north_rounded:
  assumes "\<bar>e\<bar> \<le> 1 / 10 ^ 9"
  shows "\<exists>d. calculateDistance_fl (\<lambda>lat1 lon1 lat2 lon2. e) 41 29 42 29 = Some d \<and> 108 \<le> d \<and> d \<le> 115"
proof -
  let ?A = "sin (pi / 360) * sin (pi / 360) + e"
  have sx: "87 / 10 ^ 4 \<le> sin (pi / 360) \<and> sin (pi / 360) \<le> 88 / 10 ^ 4"
  proof (rule sin_between [where lo = "157 / 18000" and hi = "1571 / 180000"])
    show "157 / 18000 \<le> pi / 360" using pi_gt_314 by simp
    show "pi / 360 \<le> 1571 / 180000" using pi_lt_3142 by simp
  qed (simp_all add: power_divide)
  have lo: "(87 / 10 ^ 4) * (87 / 10 ^ 4) \<le> sin (pi / 360) * sin (pi / 360)"
    using sx by (intro mult_mono) simp_all
  have hi: "sin (pi / 360) * sin (pi / 360) \<le> (88 / 10 ^ 4) * (88 / 10 ^ 4)"
    using sx by (intro mult_mono) simp_all
  have e: "- (1 / 10 ^ 9) \<le> e" "e \<le> 1 / 10 ^ 9" using assms by linarith+
  have Al: "75 / 10 ^ 6 \<le> ?A"
  proof -
    have "(75 / 10 ^ 6 :: real) \<le> (87 / 10 ^ 4) * (87 / 10 ^ 4) + - (1 / 10 ^ 9)" by simp
    also have "\<dots> \<le> ?A" using lo e(1) by (rule add_mono)
    finally show ?thesis .
  qed
  have Ah: "?A \<le> 78 / 10 ^ 6"
  proof -
    have "?A \<le> (88 / 10 ^ 4) * (88 / 10 ^ 4) + 1 / 10 ^ 9" using hi e(2) by (rule add_mono)
    also have "\<dots> \<le> (78 / 10 ^ 6 :: real)" by simp
    finally show ?thesis .
  qed
  have c: "85 / 10 ^ 4 \<le> atan2 (sqrt ?A) (sqrt (1 - ?A)) \<and>
           atan2 (sqrt ?A) (sqrt (1 - ?A)) \<le> 9 / 10 ^ 3"
  proof (rule atan2_sqrt_bounds [where rl = "86 / 10 ^ 4" and rh = "89 / 10 ^ 4"])
    show "0 \<le> ?A" by (rule order_trans [OF _ Al]) simp
    show "?A \<le> 1 - (9999 / 10000) ^ 2" by (rule order_trans [OF Ah]) (simp add: power_divide)
    show "(86 / 10 ^ 4) ^ 2 \<le> ?A" by (rule order_trans [OF _ Al]) (simp add: power_divide)
    show "?A \<le> (89 / 10 ^ 4) ^ 2" by (rule order_trans [OF Ah]) (simp add: power_divide)
    show "(85 / 10 ^ 4 :: real) \<le> 86 / 10 ^ 4 * (1 - (85 / 10 ^ 4) ^ 2 / 2)"
      by (simp add: power_divide)
    show "(89 / 10 ^ 4 :: real) / (9999 / 10000) \<le> 9 / 10 ^ 3 - (9 / 10 ^ 3) ^ 3 / 6"
      by (simp add: power_divide)
  qed simp_all
  have "0 \<le> ?A" by (rule order_trans [OF _ Al]) simp
  moreover have "?A \<le> 1" by (rule order_trans [OF Ah]) simp
  ultimately have A0: "\<not> ?A < 0" "\<not> 1 - ?A < 0" by simp_all
  have 1: "(42 - 41) * pi / 180 / 2 = pi / 360" by simp
  have 2: "sin ((29 - 29) * pi / 180 / 2) = 0" by simp
  have "calculateDistance_fl (\<lambda>lat1 lon1 lat2 lon2. e) 41 29 42 29 =
          Some (6371 * (2 * atan2 (sqrt ?A) (sqrt (1 - ?A))))"
    unfolding calculateDistance_fl_def Let_def 1 2 Math_sqrt_def using A0 by simp
  then show ?thesis using c by simp
qed

text \<open>
  Between the antipodal points (-87.5, -179.5) and (87.5, 0.5) the term \<open>a\<close> is 1: any
  rounding upwards gives \<^verbatim>\<open>NaN\<close>, and a geofence there is not triggered whatever its
  radius.
\<close>

lemma antipodal_term: "haversine_term (- 87.5) (- 179.5) 87.5 0.5 = 1"
proof -
  have 1: "(87.5 - - 87.5) * pi / 180 / 2 = 87.5 * pi / 180" by simp
  have 2: "(0.5 - - 179.5) * pi / 180 / 2 = pi / 2" by simp
  have 3: "cos (- 87.5 * pi / 180) = cos (87.5 * pi / 180)"
    using cos_minus [of "87.5 * pi / 180"] by simp
  have "sin (87.5 * pi / 180) * sin (87.5 * pi / 180) +
        cos (87.5 * pi / 180) * cos (87.5 * pi / 180) = 1"
    using sin_cos_squared_add3 [of "87.5 * pi / 180"] by linarith
  then show ?thesis unfolding haversine_term_def 1 2 3 by simp
qed

lemma antipodal_nan:
  assumes "0 < e"
  shows "calculateDistance_fl (\<lambda>lat1 lon1 lat2 lon2. e) (- 87.5) (- 179.5) 87.5 0.5 = None"
    and "geofence_hit (\<lambda>lat1 lon1 lat2 lon2. e) (Val (- 87.5)) (Val (- 179.5)) (fence_of 1 87.5 0.5 r) = None"
proof -
  show n: "calculateDistance_fl (\<lambda>lat1 lon1 lat2 lon2. e) (- 87.5) (- 179.5) 87.5 0.5 = None"
    unfolding calculateDistance_fl_None antipodal_term using assms by simp
  show "geofence_hit (\<lambda>lat1 lon1 lat2 lon2. e) (Val (- 87.5)) (Val (- 179.5)) (fence_of 1 87.5 0.5 r) = None"
    using n by (simp add: geofence_hit_def fence_of_def)
qed

text \<open>
  C1 as stated fails: a point one degree of latitude (more than 111 km) north of the
  centre of a geofence of radius 150 is reported as triggered, although its distance in
  metres is far above 150.
\<close>

theorem geofence_metres_counterexample:
  "(case check_geofence no_rounding None (Val ''t1'') (Val 41) (Val 29)
           (server0\<lparr>geofences := [fence_of 1 42 29 150]\<rparr>)
      of TriggeredGeofences l \<Rightarrow> map tg_id l | _ \<Rightarrow> []) = [1]
   \<and> \<not> (calculateDistance 41 29 42 29 * 1000 \<le> 150)"
proof -
  have "calculateDistance_fl no_rounding 41 29 42 29 = Some (calculateDistance 41 29 42 29)"
    by (rule calculateDistance_fl_exact) (simp add: no_rounding_def)
  then show ?thesis
    using one_degree_north
    by (simp add: check_geofence_def select_geofences_def fence_of_def map_filter_simps
          geofence_hit_def)
qed

text \<open>
  C1, amended. For a point given by two numbers, the evaluation answers, in the order of
  the table, one entry for each active geofence of the tracking id for which the distance
  that \<^verbatim>\<open>calculateDistance\<close> computes from the point to the centre is a number and is at
  most the radius (the boundary included), and no other entry. The distance is in
  kilometres and is compared as it is; the entry carries the id and action of the geofence
  and the distance times 1000, rounded to the nearest integer. The computed distance is no
  number (\<^verbatim>\<open>NaN\<close>) exactly when the term \<open>a\<close>, as the doubles round it, is below 0 or
  above 1, which happens between nearly antipodal points; where \<open>a\<close> is computed
  without error, the computed distance is the great-circle distance.
\<close>

theorem check_geofence_kilometres:
  "check_geofence rnd None tid (Val la) (Val lo) st =
     TriggeredGeofences
       (map (\<lambda>g. \<lparr>tg_id = gf_id g, tg_action = gf_action g,
                   tg_distance =
                     (case calculateDistance_fl rnd la lo (num (gf_latitude g)) (num (gf_longitude g)) of
                        Some d \<Rightarrow> Math_round (d * 1000) | None \<Rightarrow> 0)\<rparr>)
         (filter (\<lambda>g. case calculateDistance_fl rnd la lo (num (gf_latitude g)) (num (gf_longitude g)) of
                         Some d \<Rightarrow> d \<le> num (gf_radius g) | None \<Rightarrow> False)
            (select_geofences tid (geofences st))))
   \<and> (geofence_hit rnd (Val la) (Val lo) g \<noteq> None) =
       (\<exists>d. calculateDistance_fl rnd la lo (num (gf_latitude g)) (num (gf_longitude g)) = Some d
            \<and> d \<le> num (gf_radius g))
   \<and> (calculateDistance_fl rnd lat1 lon1 lat2 lon2 = None) =
       (haversine_term lat1 lon1 lat2 lon2 + rnd lat1 lon1 lat2 lon2 < 0
        \<or> 1 < haversine_term lat1 lon1 lat2 lon2 + rnd lat1 lon1 lat2 lon2)
   \<and> (rnd lat1 lon1 lat2 lon2 = 0 \<longrightarrow>
        calculateDistance_fl rnd lat1 lon1 lat2 lon2 = Some (calculateDistance lat1 lon1 lat2 lon2))"
proof (intro conjI impI)
  show "check_geofence rnd None tid (Val la) (Val lo) st =
     TriggeredGeofences
       (map (\<lambda>g. \<lparr>tg_id = gf_id g, tg_action = gf_action g,
                   tg_distance =
                     (case calculateDistance_fl rnd la lo (num (gf_latitude g)) (num (gf_longitude g)) of
                        Some d \<Rightarrow> Math_round (d * 1000) | None \<Rightarrow> 0)\<rparr>)
         (filter (\<lambda>g. case calculateDistance_fl rnd la lo (num (gf_latitude g)) (num (gf_longitude g)) of
                         Some d \<Rightarrow> d \<le> num (gf_radius g) | None \<Rightarrow> False)
            (select_geofences tid (geofences st))))"
    by (simp add: check_geofence_def map_filter_geofence_hit)
  show "(geofence_hit rnd (Val la) (Val lo) g \<noteq> None) =
       (\<exists>d. calculateDistance_fl rnd la lo (num (gf_latitude g)) (num (gf_longitude g)) = Some d
            \<and> d \<le> num (gf_radius g))"
    by (rule geofence_hit_iff)
  show "(calculateDistance_fl rnd lat1 lon1 lat2 lon2 = None) =
       (haversine_term lat1 lon1 lat2 lon2 + rnd lat1 lon1 lat2 lon2 < 0
        \<or> 1 < haversine_term lat1 lon1 lat2 lon2 + rnd lat1 lon1 lat2 lon2)"
    by (rule calculateDistance_fl_None)
  show "calculateDistance_fl rnd lat1 lon1 lat2 lon2 = Some (calculateDistance lat1 lon1 lat2 lon2)"
    if "rnd lat1 lon1 lat2 lon2 = 0"
    using that by (rule calculateDistance_fl_exact)
qed

theorem check_geofence_kilometres_witness:
  "no_rounding 41 29 42 29 = 0
   \<and> calculateDistance_fl no_rounding 41 29 42 29 = Some (calculateDistance 41 29 42 29)"
proof -
  have h: "no_rounding 41 29 42 29 = 0" by (simp add: no_rounding_def)
  from check_geofence_kilometres [where rnd = no_rounding and ?lat1.0 = 41 and ?lon1.0 = 29
      and ?lat2.0 = 42 and ?lon2.0 = 29, THEN conjunct2, THEN conjunct2, THEN conjunct2, THEN mp, OF h]
    h
  show ?thesis by blast
qed

section \<open>The average speed of a route\<close>

text \<open>
  The average is taken over the non-zero speed readings of the samples after the first.
\<close>

lemma speeds_route_step:
  "totalSpeed (route_step prev cur acc) =
     totalSpeed acc + (case ld_speed cur of Some v \<Rightarrow> v | None \<Rightarrow> 0)
   \<and> speedCount (route_step prev cur acc) =
     speedCount acc + (case ld_speed cur of Some v \<Rightarrow> (if v \<noteq> 0 then 1 else 0) | None \<Rightarrow> 0)"
  by (simp add: route_step_def Let_def split: option.splits)

lemma speeds_route_loop:
  "totalSpeed (route_loop prev rest acc) =
     totalSpeed acc + sum_list (map (\<lambda>r. num (ld_speed r)) rest)
   \<and> speedCount (route_loop prev rest acc) =
     speedCount acc + length (filter (\<lambda>r. num (ld_speed r) \<noteq> 0) rest)"
proof (induction rest arbitrary: prev acc)
  case Nil
  show ?case by simp
next
  case (Cons cur rest)
  show ?case
    by (cases "ld_speed cur") (simp_all add: Cons.IH speeds_route_step)
qed

lemma avgSpeed_analyzeRoute:
  "2 \<le> length locations \<Longrightarrow>
   avgSpeed (analyzeRoute locations) =
     (if filter (\<lambda>r. num (ld_speed r) \<noteq> 0) (tl locations) = [] then 0
      else Math_round (sum_list (map (\<lambda>r. num (ld_speed r)) (tl locations))
             / real (length (filter (\<lambda>r. num (ld_speed r) \<noteq> 0) (tl locations))) * 3.6))"
  by (simp add: analyzeRoute_def Let_def speeds_route_loop)

section \<open>The route of two samples\<close>

text \<open>The loop reads the speed of \<^verbatim>\<open>curr\<close> only: never that of the first sample.\<close>

lemma route_step_first_speed:
  "route_step (prev\<lparr>ld_speed := s\<rparr>) cur acc = route_step prev cur acc"
  by (simp add: route_step_def)

lemma route_loop_first_speed:
  "route_loop (prev\<lparr>ld_speed := s\<rparr>) rest acc = route_loop prev rest acc"
  by (cases rest) (simp_all add: route_step_first_speed)

lemma analyzeRoute_first_speed:
  "analyzeRoute (r\<lparr>ld_speed := s\<rparr> # rest) = analyzeRoute (r # rest)"
  by (cases rest) (simp_all add: analyzeRoute_def route_loop_first_speed route_step_first_speed)

lemma round_67: "133 / 200 \<le> d \<Longrightarrow> d < 27 / 40 \<Longrightarrow> Math_round (d * 100) = 67"
  unfolding Math_round_def by (rule floor_unique) simp_all

lemma round_25: "Math_round (126 / 5) = 25"
  unfolding Math_round_def by (rule floor_unique) simp_all

lemma route_of_pair:
  assumes "133 / 200 \<le> calculateDistance la1 lo1 la2 lo2"
    and "calculateDistance la1 lo1 la2 lo2 < 27 / 40"
  shows "analyzeRoute [row_of la1 lo1 (Some 5) t0, row_of la2 lo2 (Some 7) (t0 + 120000)] =
     \<lparr>totalDistance = 67 / 100, avgSpeed = 25, stops = [], totalLocations = Some 2,
      duration = Some (1 / 30)\<rparr>"
  using round_67 [OF assms]
  by (simp add: analyzeRoute_def route_step_def row_of_def Let_def round_25)

lemma istanbul_route:
  "analyzeRoute [row_of 41.0082 28.9784 (Some 5) t0, row_of 41.0122 28.9844 (Some 7) (t0 + 120000)] =
     \<lparr>totalDistance = 67 / 100, avgSpeed = 25, stops = [], totalLocations = Some 2,
      duration = Some (1 / 30)\<rparr>"
  by (rule route_of_pair [OF istanbul_distance [THEN conjunct1] istanbul_distance [THEN conjunct2]])

text \<open>
  C2 as stated fails: for the two samples, 2 minutes apart, with speed readings 5 and 7,
  the average speed is 25 and not 22, and the total distance is 0.67.
\<close>

theorem istanbul_route_counterexample:
  "avgSpeed (analyzeRoute [row_of 41.0082 28.9784 (Some 5) 0,
                           row_of 41.0122 28.9844 (Some 7) 120000]) = 25
   \<and> avgSpeed (analyzeRoute [row_of 41.0082 28.9784 (Some 5) 0,
                             row_of 41.0122 28.9844 (Some 7) 120000]) \<noteq> 22
   \<and> totalDistance (analyzeRoute [row_of 41.0082 28.9784 (Some 5) 0,
                                  row_of 41.0122 28.9844 (Some 7) 120000]) = 67 / 100"
  using istanbul_route [of 0] by simp

text \<open>
  C2, amended. For the two samples at (41.0082, 28.9784) and (41.0122, 28.9844), 2
  minutes apart, with speed readings 5 and 7: the total distance is the Haversine
  distance of the two points rounded to 2 decimals, which is 0.67; the average speed is
  25, the rounded value of 7 times 3.6; there is no stop. The speed reading of the first
  sample of a history is never read: changing it changes nothing in the summary.
\<close>

theorem istanbul_route_summary:
  "totalDistance (analyzeRoute [row_of 41.0082 28.9784 (Some 5) t0,
                                row_of 41.0122 28.9844 (Some 7) (t0 + 120000)])
     = real_of_int (Math_round (calculateDistance 41.0082 28.9784 41.0122 28.9844 * 100)) / 100
   \<and> totalDistance (analyzeRoute [row_of 41.0082 28.9784 (Some 5) t0,
                                  row_of 41.0122 28.9844 (Some 7) (t0 + 120000)]) = 67 / 100
   \<and> avgSpeed (analyzeRoute [row_of 41.0082 28.9784 (Some 5) t0,
                             row_of 41.0122 28.9844 (Some 7) (t0 + 120000)])
     = Math_round (7 * 3.6)
   \<and> avgSpeed (analyzeRoute [row_of 41.0082 28.9784 (Some 5) t0,
                             row_of 41.0122 28.9844 (Some 7) (t0 + 120000)]) = 25
   \<and> stops (analyzeRoute [row_of 41.0082 28.9784 (Some 5) t0,
                          row_of 41.0122 28.9844 (Some 7) (t0 + 120000)]) = []
   \<and> analyzeRoute (r\<lparr>ld_speed := s\<rparr> # rest) = analyzeRoute (r # rest)"
proof -
  have "Math_round (calculateDistance 41.0082 28.9784 41.0122 28.9844 * 100) = 67"
    by (rule round_67 [OF istanbul_distance [THEN conjunct1] istanbul_distance [THEN conjunct2]])
  moreover have "Math_round (7 * 3.6) = 25"
    unfolding Math_round_def by (rule floor_unique) simp_all
  ultimately show ?thesis
    by (simp only: istanbul_route analyzeRoute_first_speed route_summary.simps) simp
qed

end
